theory Spec2Isabelle
  imports Complex_Main "HOL-Library.Word"
begin

section \<open>In-memory audio transcoding: a shallow embedding of transcoding.c\<close>

text \<open>
  The file drives libavformat, libavcodec, libswresample and libavutil. The embedding keeps
  the control flow of every function of transcoding.c and takes the result of each library
  call from a record of answers: a theorem quantified over that record holds whatever the
  library answers.
\<close>

subsection \<open>Error codes\<close>

text \<open>
  On POSIX systems \<open>AVERROR(e)\<close> is \<open>-(e)\<close>, \<open>ENOMEM\<close> is 12 and \<open>AVERROR_EXIT\<close> is
  \<open>FFERRTAG('E','X','I','T')\<close>, the negated little-endian tag \<open>0x54495845\<close>.
\<close>

definition ENOMEM :: int where
  "ENOMEM = 12"

definition AVERROR :: "int \<Rightarrow> int" where
  "AVERROR e = - e"

definition AVERROR_EXIT :: int where
  "AVERROR_EXIT = - 1414092869"

subsection \<open>Data\<close>

datatype AVCodecID = AV_CODEC_ID_NONE | AV_CODEC_ID_OPUS | AV_CODEC_ID_OTHER nat

datatype AVMediaType = AVMEDIA_TYPE_VIDEO | AVMEDIA_TYPE_AUDIO | AVMEDIA_TYPE_DATA
  | AVMEDIA_TYPE_SUBTITLE | AVMEDIA_TYPE_ATTACHMENT

text \<open>The fields of \<open>TranscodingArgs\<close> that transcoding.c reads.\<close>

record TranscodingArgs =
  format_name :: string
  arg_bit_rate :: int
  arg_sample_rate :: int

text \<open>
  The fields of an \<open>AVCodecContext\<close> that transcoding.c reads or writes. A channel layout is a
  \<open>uint64_t\<close> mask, a sample format an enum value (an \<open>int\<close>).
\<close>

record AVCodecContext =
  channels :: int
  channel_layout :: "64 word"
  sample_fmt :: int
  sample_rate :: int
  bit_rate :: int
  frame_size :: int
  global_header :: bool

text \<open>
  An \<open>AVCodec\<close>. Each capability array is \<open>NULL\<close> (\<open>None\<close>) or a sentinel-terminated C array;
  the list holds the cells in front of the sentinel, so the cell at index \<open>length xs\<close> is the
  sentinel itself.
\<close>

record AVCodec =
  codec_id :: AVCodecID
  codec_name :: string
  channel_layouts :: "64 word list option"
  sample_fmts :: "int list option"
  supported_samplerates :: "int list option"

text \<open>The objects transcoding.c acquires; \<open>Dst_buf\<close> is \<open>bio->buf\<close>, the destination buffer.\<close>

datatype resource = Input_format_context | Input_bio | Input_codec_context | Dst_bio | Dst_buf
  | Output_format_context | Output_codec_context | Resample_context | Fifo

text \<open>
  What a call does, in order. \<open>SwrConvert c n\<close>: \<open>swr_convert\<close> is offered \<open>c\<close> output samples for
  \<open>n\<close> input samples. \<open>Encoded f a w\<close>: \<open>avcodec_encode_audio2\<close> returned without error; \<open>f\<close> is
  \<open>None\<close> for a flush call (\<open>frame == NULL\<close>) and otherwise the frame's \<open>pts\<close> and \<open>nb_samples\<close>,
  \<open>a\<close> is \<open>*pts\<close> at the encode call, \<open>w\<close> tells whether a packet came out and went to
  \<open>av_write_frame\<close>.
\<close>

datatype event =
    Alloc resource
  | Free resource
  | Stderr string
  | Stdout string
  | SwrConvert int int
  | Encoded "(int \<times> int) option" int bool

subsection \<open>The arithmetic of C\<close>

text \<open>
  An integer type of C: signed or unsigned, with its width in bits. \<open>int\<close> has 32 bits. An
  operand of a narrower type is promoted to \<open>int\<close>.
\<close>

datatype c_integer_type = Signed nat | Unsigned nat

definition promoted :: "c_integer_type \<Rightarrow> c_integer_type" where
  "promoted t =
     (case t of
        Signed w \<Rightarrow> Signed (max w 32)
      | Unsigned w \<Rightarrow> if w < 32 then Signed 32 else Unsigned w)"

text \<open>
  \<open>8 * x\<close> for an \<open>x\<close> of type \<open>t\<close>: an unsigned product wraps around, a signed product that
  overflows is undefined (\<open>None\<close>).
\<close>

definition c_times8 :: "c_integer_type \<Rightarrow> int \<Rightarrow> int option" where
  "c_times8 t x =
     (case promoted t of
        Unsigned w \<Rightarrow> Some ((8 * x) mod 2 ^ w)
      | Signed w \<Rightarrow>
          if - (2 ^ (w - 1)) \<le> 8 * x \<and> 8 * x < 2 ^ (w - 1) then Some (8 * x) else None)"

text \<open>The \<open>%\<close> of C on \<open>int\<close>: the remainder of the division that truncates towards zero.\<close>

definition c_rem :: "int \<Rightarrow> int \<Rightarrow> int" where
  "c_rem a b = sgn a * (\<bar>a\<bar> mod \<bar>b\<bar>)"

text \<open>
  A \<open>float\<close> is an IEEE 754 binary32 number and every operation is rounded to that format, to
  the nearest number and to the even significand on a tie: significands of 24 bits, binades
  from \<open>2 ^ -126\<close> to \<open>2 ^ 127\<close>, subnormal numbers below, an infinity from
  \<open>2 ^ 128 - 2 ^ 103\<close> on. A finite \<open>float\<close> is kept as the number it denotes. The
  sign of a zero and of an infinity is not kept: the operations below give the same result
  for either sign.
\<close>

datatype cfloat = Finite real | Infinity | NaN

text \<open>The number of binary digits of \<open>n\<close>.\<close>

fun bit_length :: "nat \<Rightarrow> nat" where
  "bit_length n = (if n = 0 then 0 else Suc (bit_length (n div 2)))"

declare bit_length.simps [simp del]

text \<open>The binade of a positive \<open>x\<close>: the \<open>e\<close> with \<open>2 ^ e \<le> x < 2 ^ (e + 1)\<close>.\<close>

definition binade :: "real \<Rightarrow> int" where
  "binade x =
     (if 1 \<le> x then int (bit_length (nat \<lfloor>x\<rfloor>)) - 1
      else - int (bit_length (nat (\<lceil>1 / x\<rceil> - 1))))"

definition pow2 :: "int \<Rightarrow> real" where
  "pow2 e = (if 0 \<le> e then 2 ^ nat e else 1 / 2 ^ nat (- e))"

definition round_half_even :: "real \<Rightarrow> int" where
  "round_half_even x =
     (let f = \<lfloor>x\<rfloor>; r = x - of_int f
      in if r < 1 / 2 then f else if 1 / 2 < r then f + 1 else if even f then f else f + 1)"

text \<open>
  Rounding to binary32: the nearest multiple of the unit in the last place of the binade of
  \<open>x\<close>, which is \<open>2 ^ (e - 23)\<close> and \<open>2 ^ -149\<close> below \<open>2 ^ -126\<close>.
\<close>

definition round32 :: "real \<Rightarrow> cfloat" where
  "round32 x =
     (if x = 0 then Finite 0
      else
      let ulp = pow2 (max (binade \<bar>x\<bar>) (- 126) - 23);
          r = sgn x * (of_int (round_half_even (\<bar>x\<bar> / ulp)) * ulp)
      in if 2 ^ 128 \<le> \<bar>r\<bar> then Infinity else Finite r)"

text \<open>The conversion of an integer to \<open>float\<close>.\<close>

definition float_of_int :: "int \<Rightarrow> cfloat" where
  "float_of_int n = round32 (of_int n)"

text \<open>The division of two \<open>float\<close>s.\<close>

fun float_div :: "cfloat \<Rightarrow> cfloat \<Rightarrow> cfloat" where
  "float_div (Finite a) (Finite b) =
     (if b = 0 then (if a = 0 then NaN else Infinity) else round32 (a / b))"
| "float_div (Finite a) Infinity = Finite 0"
| "float_div Infinity (Finite b) = Infinity"
| "float_div Infinity Infinity = NaN"
| "float_div NaN y = NaN"
| "float_div x NaN = NaN"

text \<open>
  The conversion of a \<open>float\<close> to \<open>int\<close> discards the fraction; it is undefined (\<open>None\<close>) when
  the integral part is not a value of \<open>int\<close>, and for an infinity and a NaN.
\<close>

fun int_of_float :: "cfloat \<Rightarrow> int option" where
  "int_of_float (Finite q) =
     (let t = (if 0 \<le> q then \<lfloor>q\<rfloor> else \<lceil>q\<rceil>)
      in if - (2 ^ 31) \<le> t \<and> t < 2 ^ 31 then Some t else None)"
| "int_of_float Infinity = None"
| "int_of_float NaN = None"

subsection \<open>Scanning a sentinel-terminated array\<close>

text \<open>
  \<open>idx = 0; found = 0; while (a[idx] != t) { if (a[idx] == v) { found = 1; break; } idx++; }\<close>
\<close>

fun scan_found :: "'a \<Rightarrow> 'a list \<Rightarrow> 'a \<Rightarrow> bool" where
  "scan_found t [] v = False"
| "scan_found t (x # xs) v = (if x = t then False else if x = v then True else scan_found t xs v)"

text \<open>\<open>a[0]\<close>: the first cell, the sentinel when nothing is declared.\<close>

fun first_cell :: "'a \<Rightarrow> 'a list \<Rightarrow> 'a" where
  "first_cell t [] = t"
| "first_cell t (x # xs) = x"

text \<open>The set an array declares: its cells up to the sentinel.\<close>

definition declared :: "'a \<Rightarrow> 'a list \<Rightarrow> 'a set" where
  "declared t xs = set (takeWhile (\<lambda>x. x \<noteq> t) xs)"

subsection \<open>set_encoder_params\<close>

text \<open>Lines 140 to 166: channels, default layout and input format; the layout must be declared.\<close>

definition negotiate_layout ::
  "(int \<Rightarrow> 64 word) \<Rightarrow> AVCodecContext \<Rightarrow> AVCodec \<Rightarrow> AVCodecContext \<Rightarrow> bool \<times> AVCodecContext"
where
  "negotiate_layout av_get_default_channel_layout encoder_ctx encoder input_ctx =
     (let ctx = encoder_ctx\<lparr>channels := channels input_ctx\<rparr>;
          ctx = ctx\<lparr>channel_layout := av_get_default_channel_layout (channels ctx)\<rparr>;
          ctx = ctx\<lparr>sample_fmt := sample_fmt input_ctx\<rparr>
      in case channel_layouts encoder of
           None \<Rightarrow> (True, ctx)
         | Some ls \<Rightarrow> (scan_found 0 ls (channel_layout ctx), ctx))"

text \<open>Lines 168 to 192: the sample format falls back to the first declared one.\<close>

definition negotiate_sample_fmt ::
  "AVCodecContext \<Rightarrow> AVCodec \<Rightarrow> AVCodecContext \<Rightarrow> AVCodecContext \<times> event list"
where
  "negotiate_sample_fmt ctx encoder input_ctx =
     (case sample_fmts encoder of
        Some fs \<Rightarrow>
          (if scan_found (- 1) fs (sample_fmt input_ctx) then (ctx, [])
           else (ctx\<lparr>sample_fmt := first_cell (- 1) fs\<rparr>, []))
      | None \<Rightarrow>
          (ctx, [Stdout ''Warning: don't know the supported sample formats of the encoder''] ))"

text \<open>Lines 194 to 228: the sample rate.\<close>

definition candidate_rate :: "TranscodingArgs \<Rightarrow> AVCodecContext \<Rightarrow> int" where
  "candidate_rate args input_ctx =
     (if arg_sample_rate args > 0 then arg_sample_rate args else sample_rate input_ctx)"

definition negotiate_sample_rate ::
  "TranscodingArgs \<Rightarrow> AVCodecContext \<Rightarrow> AVCodec \<Rightarrow> AVCodecContext \<Rightarrow> AVCodecContext \<times> event list"
where
  "negotiate_sample_rate args ctx encoder input_ctx =
     (let rate = candidate_rate args input_ctx
      in case supported_samplerates encoder of
           Some rs \<Rightarrow>
             (if scan_found 0 rs rate then (ctx\<lparr>sample_rate := rate\<rparr>, [])
              else (ctx\<lparr>sample_rate := first_cell 0 rs\<rparr>,
                    if arg_sample_rate args > 0
                    then [Stdout ''The encoder doesn't support the sample rate you specified'']
                    else []))
         | None \<Rightarrow> (ctx\<lparr>sample_rate := rate\<rparr>, []))"

text \<open>Lines 230 to 241: the Opus override and the bit rate.\<close>

definition override_opus_and_bit_rate ::
  "TranscodingArgs \<Rightarrow> AVCodecContext \<Rightarrow> AVCodec \<Rightarrow> AVCodecContext"
where
  "override_opus_and_bit_rate args ctx encoder =
     (let ctx = (if codec_id encoder = AV_CODEC_ID_OPUS then ctx\<lparr>sample_rate := 48000\<rparr> else ctx)
      in if arg_bit_rate args > 0 then ctx\<lparr>bit_rate := arg_bit_rate args\<rparr> else ctx)"

text \<open>The whole function: the return value, the encoder context and what was printed.\<close>

definition set_encoder_params ::
  "(int \<Rightarrow> 64 word) \<Rightarrow> TranscodingArgs \<Rightarrow> AVCodecContext \<Rightarrow> AVCodec \<Rightarrow> AVCodecContext
     \<Rightarrow> int \<times> AVCodecContext \<times> event list"
where
  "set_encoder_params av_get_default_channel_layout args encoder_ctx encoder input_ctx =
     (case negotiate_layout av_get_default_channel_layout encoder_ctx encoder input_ctx of
        (False, ctx) \<Rightarrow> (- 1, ctx, [Stderr ''channel layout is not supported''])
      | (True, ctx) \<Rightarrow>
          (case negotiate_sample_fmt ctx encoder input_ctx of
             (ctx, out1) \<Rightarrow>
               (case negotiate_sample_rate args ctx encoder input_ctx of
                  (ctx, out2) \<Rightarrow>
                    (0, override_opus_and_bit_rate args ctx encoder, out1 @ out2))))"

subsection \<open>The library's answers\<close>

text \<open>
  \<open>AVERROR_EOF\<close> is \<open>FFERRTAG('E','O','F',' ')\<close>.
\<close>

definition AVERROR_EOF :: int where
  "AVERROR_EOF = - 541478725"

text \<open>A stream of the input container: the fields of its \<open>codecpar\<close>.\<close>

record AVCodecParameters =
  codec_type :: AVMediaType
  par_channels :: int

text \<open>
  What the library answers inside \<open>open_input_stream\<close>. A field named after a function is its
  return value; \<open>_ok\<close> says that an allocation or lookup returned a non-null pointer;
  \<open>streams\<close> is what the opened container holds; \<open>decoder_ctx\<close> is the decoder context as
  \<open>avcodec_parameters_to_context\<close> fills it.
\<close>

record input_answers =
  avformat_alloc_context_ok :: bool
  input_bio_malloc_ok :: bool
  input_init_io_context_default :: int
  avformat_open_input :: int
  avformat_find_stream_info :: int
  streams :: "AVCodecParameters list"
  avcodec_find_decoder_ok :: bool
  decoder_alloc_context3_ok :: bool
  avcodec_parameters_to_context :: int
  decoder_ctx :: AVCodecContext
  decoder_avcodec_open2 :: int

text \<open>
  What the library answers while the output side is set up. \<open>estimated_from_duration\<close> is the
  value of \<open>args.bit_rate * duration / 8\<close>, computed in \<open>double\<close>; \<open>encoder_frame_size\<close> is the
  \<open>frame_size\<close> that \<open>avcodec_open2\<close> stores in the encoder context.
\<close>

record output_answers =
  estimated_from_duration :: int
  dst_bio_malloc_ok :: bool
  dst_buf_malloc_ok :: bool
  avformat_alloc_output_context2 :: int
  output_init_io_context_default :: int
  avcodec_find_encoder :: "AVCodec option"
  avformat_new_stream_ok :: bool
  encoder_alloc_context3 :: "AVCodecContext option"
  oformat_globalheader :: bool
  encoder_avcodec_open2 :: int
  encoder_frame_size :: int
  avcodec_parameters_from_context :: int
  swr_alloc_ok :: bool
  swr_init :: int
  av_audio_fifo_alloc_ok :: bool
  avformat_write_header :: int

text \<open>What the library answers during one call of \<open>read_decode_convert_and_store\<close>.\<close>

record read_answers =
  input_frame_alloc_ok :: bool
  av_read_frame :: int
  avcodec_decode_audio4 :: int
  decoded_data_present :: bool
  nb_samples :: int
  swr_get_delay :: int
  calloc_ok :: bool
  av_samples_alloc :: int
  swr_convert :: int
  av_audio_fifo_realloc :: int
  av_audio_fifo_write :: int

text \<open>
  What the library answers around one call of \<open>encode_audio_frame\<close>; the first three fields
  are read by \<open>load_encode_and_write\<close> in front of it.
\<close>

record encode_answers =
  output_frame_alloc_ok :: bool
  av_frame_get_buffer :: int
  av_audio_fifo_read :: int
  avcodec_encode_audio2 :: int
  got_packet :: bool
  av_write_frame :: int

text \<open>
  \<open>size_type\<close> is the integer type that transcoding.h, which is not among the sources, gives
  the field \<open>size\<close> of \<open>BufferIO\<close>; \<open>final_size\<close> is the value of \<open>bio->size\<close> when the trailer
  has been written.
\<close>

record library =
  on_input :: input_answers
  on_output :: output_answers
  av_get_default_channel_layout :: "int \<Rightarrow> 64 word"
  reads :: "nat \<Rightarrow> read_answers"
  encodes :: "nat \<Rightarrow> encode_answers"
  av_write_trailer :: int
  final_size :: int
  size_type :: c_integer_type

subsection \<open>State\<close>

text \<open>
  Modelled from the spec: the FIFO is libavutil's and absent from the sources; its size after
  a write is the size before plus the samples written, and a read of N samples returns
  exactly N samples or fails. \<open>fifo_size\<close> is that size. The other fields are the locals of
  \<open>transcoding\<close> (a context pointer is non-null when \<open>True\<close> or \<open>Some\<close>), the capacity
  \<open>bio->_total\<close> of the destination buffer, the trace, and how many answers of \<open>reads\<close> and
  \<open>encodes\<close> have been used.
\<close>

record state =
  trace :: "event list"
  input_format_context :: bool
  input_codec_context :: "AVCodecContext option"
  output_format_context :: bool
  output_codec_context :: "AVCodecContext option"
  resample_context :: bool
  fifo :: bool
  fifo_size :: int
  pts :: int
  dst_total :: int
  n_reads :: nat
  n_encodes :: nat

definition initial_state :: state where
  "initial_state =
     \<lparr>trace = [], input_format_context = False, input_codec_context = None,
      output_format_context = False, output_codec_context = None, resample_context = False,
      fifo = False, fifo_size = 0, pts = 0, dst_total = 0, n_reads = 0, n_encodes = 0\<rparr>"

text \<open>The caller's \<open>BufferData\<close> and the three cells the out-parameters point to.\<close>

record BufferData =
  buf :: "resource option"
  buf_size :: int

record caller_memory =
  p_dst_buf :: BufferData
  out_bit_rate :: int
  out_duration :: cfloat

text \<open>
  A function returns a value, or its behaviour is undefined and it has no result
  (\<open>Crashed\<close>): it dereferences a null pointer, frees a block a second time, or converts a
  \<open>float\<close> to an \<open>int\<close> that cannot hold it.
\<close>

datatype outcome = Returned int | Crashed

definition emit :: "event \<Rightarrow> state \<Rightarrow> state" where
  "emit ev s = s\<lparr>trace := trace s @ [ev]\<rparr>"

definition emits :: "event list \<Rightarrow> state \<Rightarrow> state" where
  "emits evs s = s\<lparr>trace := trace s @ evs\<rparr>"

subsection \<open>open_input_stream\<close>

text \<open>
  \<open>avformat_close_input\<close> frees the context and sets the pointer to \<open>NULL\<close>. A failing
  \<open>avformat_open_input\<close> has freed the context when it returns.
\<close>

definition avformat_close_input :: "state \<Rightarrow> state" where
  "avformat_close_input s = (emit (Free Input_format_context) s)\<lparr>input_format_context := False\<rparr>"

definition open_input_stream :: "library \<Rightarrow> state \<Rightarrow> outcome \<times> state" where
  "open_input_stream e s =
     (let i = on_input e in
      if \<not> avformat_alloc_context_ok i then
        (Returned (AVERROR ENOMEM),
         emit (Stderr ''Could not aloc input format context, allocate memory failed.'') s)
      else
      let s = emit (Alloc Input_format_context) (s\<lparr>input_format_context := True\<rparr>) in
      if \<not> input_bio_malloc_ok i then (Crashed, s)
      else
      let s = emit (Alloc Input_bio) s in
      if input_init_io_context_default i \<noteq> 0 then
        (Returned (input_init_io_context_default i),
         avformat_close_input (emit (Stderr ''Could not init IO context.'') s))
      else if avformat_open_input i < 0 then
        (Returned (avformat_open_input i),
         (emit (Stderr ''Could not open input stream.'') (emit (Free Input_format_context) s))
           \<lparr>input_format_context := False\<rparr>)
      else if avformat_find_stream_info i < 0 then
        (Returned (avformat_find_stream_info i),
         avformat_close_input (emit (Stderr ''Could not open find stream info.'') s))
      else
      case streams i of
        [codecpar] \<Rightarrow>
          if \<not> avcodec_find_decoder_ok i then
            (Returned AVERROR_EXIT,
             avformat_close_input (emit (Stderr ''Could not find input codec.'') s))
          else if \<not> decoder_alloc_context3_ok i then
            (Returned (AVERROR ENOMEM),
             avformat_close_input (emit (Stderr ''Could not allocate a decoding context.'') s))
          else
          let s = emit (Alloc Input_codec_context) s in
          if avcodec_parameters_to_context i < 0 then
            (Returned (avcodec_parameters_to_context i),
             emit (Free Input_codec_context) (avformat_close_input s))
          else
          let avctx = decoder_ctx i;
              avctx = (if channel_layout avctx = 0
                       then avctx\<lparr>channel_layout :=
                                    av_get_default_channel_layout e (par_channels codecpar)\<rparr>
                       else avctx)
          in
          if decoder_avcodec_open2 i < 0 then
            (Returned (decoder_avcodec_open2 i),
             avformat_close_input
               (emit (Free Input_codec_context) (emit (Stderr ''Could not open input codec.'') s)))
          else (Returned 0, s\<lparr>input_codec_context := Some avctx\<rparr>)
      | _ \<Rightarrow>
          (Returned AVERROR_EXIT,
           avformat_close_input
             (emit (Stderr ''Expected one audio input stream, but found %d.'') s)))"

subsection \<open>open_output_stream\<close>

text \<open>
  The \<open>cleanup\<close> label of \<open>open_output_stream\<close>; \<open>avctx\<close> tells whether \<open>avctx\<close> is non-null.
  The time base that the function stores in the new stream is read nowhere else in
  transcoding.c and is left out.
\<close>

definition open_output_stream_cleanup :: "int \<Rightarrow> bool \<Rightarrow> state \<Rightarrow> int \<times> state" where
  "open_output_stream_cleanup error avctx s =
     (let s = (if avctx then emit (Free Output_codec_context) s else s);
          s = (emit (Free Output_format_context) s)\<lparr>output_format_context := False\<rparr>
      in (if error < 0 then error else AVERROR_EXIT, s))"

definition open_output_stream ::
  "library \<Rightarrow> TranscodingArgs \<Rightarrow> AVCodecContext \<Rightarrow> state \<Rightarrow> int \<times> state"
where
  "open_output_stream e args input_ctx s =
     (let out = on_output e in
      if avformat_alloc_output_context2 out < 0 then
        (avformat_alloc_output_context2 out,
         emit (Stderr ''Could not allocate output format context.'') s)
      else
      let s = emit (Alloc Output_format_context) (s\<lparr>output_format_context := True\<rparr>);
          error = output_init_io_context_default out
      in
      if error \<noteq> 0 then
        (error,
         (emit (Free Output_format_context)
            (emit (Stderr ''Could not init output format context.'') s))
           \<lparr>output_format_context := False\<rparr>)
      else
      case avcodec_find_encoder out of
        None \<Rightarrow> open_output_stream_cleanup error False (emit (Stderr ''Could not find encoder.'') s)
      | Some output_codec \<Rightarrow>
          if \<not> avformat_new_stream_ok out then
            open_output_stream_cleanup (AVERROR ENOMEM) False
              (emit (Stderr ''Could not create new stream.'') s)
          else
          (case encoder_alloc_context3 out of
            None \<Rightarrow>
              open_output_stream_cleanup (AVERROR ENOMEM) False
                (emit (Stderr ''Could not allocate an encoding context.'') s)
          | Some avctx \<Rightarrow>
              let s = emit (Alloc Output_codec_context) s in
              (case set_encoder_params (av_get_default_channel_layout e) args avctx output_codec
                     input_ctx of
                (error, avctx, printed) \<Rightarrow>
                  let s = emits printed s in
                  if error \<noteq> 0 then open_output_stream_cleanup error True s
                  else
                  let avctx = (if oformat_globalheader out then avctx\<lparr>global_header := True\<rparr>
                               else avctx)
                  in
                  if encoder_avcodec_open2 out < 0 then
                    open_output_stream_cleanup (encoder_avcodec_open2 out) True
                      (emit (Stderr ''Could not open output codec.'') s)
                  else
                  let avctx = avctx\<lparr>frame_size := encoder_frame_size out\<rparr> in
                  if avcodec_parameters_from_context out < 0 then
                    open_output_stream_cleanup (avcodec_parameters_from_context out) True
                      (emit (Stderr ''Could not initialize stream parameters.'') s)
                  else (0, s\<lparr>output_codec_context := Some avctx\<rparr>))))"

subsection \<open>init_resampler, init_fifo, header and trailer\<close>

definition init_resampler :: "library \<Rightarrow> state \<Rightarrow> int \<times> state" where
  "init_resampler e s =
     (if \<not> swr_alloc_ok (on_output e) then
        (AVERROR ENOMEM, emit (Stderr ''Could not allocate resample context.'') s)
      else
      let s = emit (Alloc Resample_context) (s\<lparr>resample_context := True\<rparr>) in
      if swr_init (on_output e) < 0 then
        (swr_init (on_output e),
         (emit (Free Resample_context) (emit (Stderr ''Could not open resample context.'') s))
           \<lparr>resample_context := False\<rparr>)
      else (0, s))"

text \<open>
  The out-parameter \<open>AVAudioFifo **fifo\<close> is \<open>NULL\<close> (\<open>None\<close>) or the address of the caller's
  pointer variable. The function stores the pointer that \<open>av_audio_fifo_alloc\<close> returned in
  \<open>*fifo\<close> and then tests \<open>fifo\<close>.
\<close>

datatype fifo_variable = Local_fifo

definition init_fifo :: "fifo_variable option \<Rightarrow> library \<Rightarrow> state \<Rightarrow> outcome \<times> state" where
  "init_fifo fifo_param e s =
     (case fifo_param of
        None \<Rightarrow> (Crashed, s)
      | Some Local_fifo \<Rightarrow>
          let s = (if av_audio_fifo_alloc_ok (on_output e) then emit (Alloc Fifo) (s\<lparr>fifo := True\<rparr>)
                   else s\<lparr>fifo := False\<rparr>)
          in
          if fifo_param = None then
            (Returned (AVERROR ENOMEM), emit (Stderr ''Could not allocate FIFO.'') s)
          else (Returned 0, s))"

definition write_output_file_header :: "library \<Rightarrow> state \<Rightarrow> int \<times> state" where
  "write_output_file_header e s =
     (if avformat_write_header (on_output e) < 0 then
        (avformat_write_header (on_output e), emit (Stderr ''Could not write output file header.'') s)
      else (0, s))"

definition write_output_file_trailer :: "library \<Rightarrow> state \<Rightarrow> int \<times> state" where
  "write_output_file_trailer e s =
     (if av_write_trailer e < 0 then
        (av_write_trailer e, emit (Stderr ''Could not write output file trailer.'') s)
      else (0, s))"

subsection \<open>Decoding into the FIFO\<close>

text \<open>
  \<open>decode_audio_frame\<close>: the return value, \<open>*data_present\<close>, \<open>*finished\<close> and what was printed.
\<close>

definition decode_audio_frame :: "read_answers \<Rightarrow> bool \<Rightarrow> int \<times> bool \<times> bool \<times> event list" where
  "decode_audio_frame r finished =
     (if av_read_frame r < 0 \<and> av_read_frame r \<noteq> AVERROR_EOF then
        (av_read_frame r, False, finished, [Stderr ''Could not read frame.''])
      else
      let finished = (if av_read_frame r < 0 then True else finished) in
      if avcodec_decode_audio4 r < 0 then
        (avcodec_decode_audio4 r, False, finished, [Stderr ''Could not decode frame.''])
      else
      let finished = (if finished \<and> decoded_data_present r then False else finished)
      in (0, decoded_data_present r, finished, []))"

text \<open>
  \<open>init_converted_samples\<close>: the return value, what \<open>*converted_input_samples\<close> holds at the
  return, and what was printed. When \<open>av_samples_alloc\<close> fails the function frees the array
  of pointers and leaves its address in \<open>*converted_input_samples\<close>.
\<close>

datatype samples_pointer = Samples_null | Samples_allocated | Samples_freed

definition init_converted_samples :: "read_answers \<Rightarrow> int \<times> samples_pointer \<times> event list" where
  "init_converted_samples r =
     (if \<not> calloc_ok r then
        (AVERROR ENOMEM, Samples_null,
         [Stderr ''Could not allocate converted input sample pointers.''])
      else if av_samples_alloc r < 0 then
        (av_samples_alloc r, Samples_freed,
         [Stderr ''Could not allocate converted input samples.''])
      else (0, Samples_allocated, []))"

definition add_samples_to_fifo :: "read_answers \<Rightarrow> int \<Rightarrow> state \<Rightarrow> int \<times> state" where
  "add_samples_to_fifo r frame_size' s =
     (if frame_size' \<le> 0 then (0, s)
      else if av_audio_fifo_realloc r < 0 then
        (av_audio_fifo_realloc r, emit (Stderr ''Could not reallocate FIFO.'') s)
      else if av_audio_fifo_write r < frame_size' then
        (AVERROR_EXIT, emit (Stderr ''Could not write data to FIFO.'') s)
      else (0, s\<lparr>fifo_size := fifo_size s + frame_size'\<rparr>))"

text \<open>
  Modelled from the spec: \<open>av_rescale_rnd\<close> is libavutil's and absent from the sources. With
  \<open>AV_ROUND_UP\<close> it is \<open>a * b / c\<close> rounded up, computed without intermediate overflow, and
  \<open>INT64_MIN\<close> when \<open>c\<close> is not positive or \<open>b\<close> is negative; a negative \<open>a\<close> is negated,
  rescaled rounding down, and negated back.
\<close>

definition av_rescale_rnd_up :: "int \<Rightarrow> int \<Rightarrow> int \<Rightarrow> int" where
  "av_rescale_rnd_up a b c =
     (if c \<le> 0 \<or> b < 0 then - (2 ^ 63)
      else if a < 0 then - ((- a) * b div c)
      else (a * b + (c - 1)) div c)"

text \<open>The cast \<open>(int)\<close> of an \<open>int64_t\<close> keeps the low 32 bits, read as two's complement.\<close>

definition int_cast :: "int \<Rightarrow> int" where
  "int_cast x = sint (word_of_int x :: 32 word)"

text \<open>Lines 626 to 633: how many output samples \<open>swr_convert\<close> is offered.\<close>

definition desired_nb_samples :: "read_answers \<Rightarrow> AVCodecContext \<Rightarrow> AVCodecContext \<Rightarrow> int" where
  "desired_nb_samples r input_ctx output_ctx =
     int_cast (av_rescale_rnd_up (swr_get_delay r + nb_samples r) (sample_rate output_ctx)
                 (sample_rate input_ctx))"

text \<open>
  The \<open>cleanup\<close> label of \<open>read_decode_convert_and_store\<close>, lines 669 to 677, for the return
  value \<open>ret\<close>: a non-null \<open>converted_input_samples\<close> is read and freed, which is undefined
  when \<open>init_converted_samples\<close> has freed it already.
\<close>

definition read_cleanup :: "samples_pointer \<Rightarrow> int \<Rightarrow> outcome" where
  "read_cleanup converted_input_samples ret =
     (if converted_input_samples = Samples_freed then Crashed else Returned ret)"

text \<open>
  \<open>read_decode_convert_and_store\<close>: the outcome, \<open>*finished\<close> and the state. Each call uses
  the next answer of \<open>reads\<close>.
\<close>

definition read_decode_convert_and_store ::
  "library \<Rightarrow> AVCodecContext \<Rightarrow> AVCodecContext \<Rightarrow> bool \<Rightarrow> state \<Rightarrow> outcome \<times> bool \<times> state"
where
  "read_decode_convert_and_store e input_ctx output_ctx finished s =
     (let r = reads e (n_reads s);
          s = s\<lparr>n_reads := Suc (n_reads s)\<rparr>
      in
      if \<not> input_frame_alloc_ok r then
        (read_cleanup Samples_null AVERROR_EXIT, finished,
         emit (Stderr ''Could not allocate input frame.'') s)
      else
      case decode_audio_frame r finished of
        (error, data_present, finished, printed) \<Rightarrow>
          let s = emits printed s in
          if error \<noteq> 0 then (read_cleanup Samples_null AVERROR_EXIT, finished, s)
          else if finished \<and> \<not> data_present then (read_cleanup Samples_null 0, finished, s)
          else if data_present then
            (let desired = desired_nb_samples r input_ctx output_ctx in
             case init_converted_samples r of
               (error, converted_input_samples, printed) \<Rightarrow>
                 let s = emits printed s in
                 if error \<noteq> 0 then
                   (read_cleanup converted_input_samples AVERROR_EXIT, finished, s)
                 else
                 let s = emit (SwrConvert desired (nb_samples r)) s in
                 if swr_convert r < 0 then
                   (read_cleanup converted_input_samples AVERROR_EXIT, finished,
                    emit (Stderr ''Could not convert input samples.'') s)
                 else
                 case add_samples_to_fifo r (swr_convert r) s of
                   (error, s) \<Rightarrow>
                     if error \<noteq> 0 then
                       (read_cleanup converted_input_samples AVERROR_EXIT, finished, s)
                     else (read_cleanup converted_input_samples 0, finished, s))
          else (read_cleanup Samples_null 0, finished, s))"

subsection \<open>Encoding out of the FIFO\<close>

definition init_output_frame :: "encode_answers \<Rightarrow> int \<times> event list" where
  "init_output_frame a =
     (if \<not> output_frame_alloc_ok a then (AVERROR_EXIT, [Stderr ''Could not allocate output frame.''])
      else if av_frame_get_buffer a < 0 then
        (av_frame_get_buffer a, [Stderr ''Could allocate output frame samples.''])
      else (0, []))"

text \<open>
  \<open>encode_audio_frame\<close>: \<open>frame\<close> is \<open>None\<close> for \<open>NULL\<close> and the frame's \<open>nb_samples\<close> otherwise.
  The result is the return value, \<open>*data_present\<close> and the state; \<open>pts\<close> is the accumulator
  \<open>*pts\<close>, an \<open>int64_t\<close> that counts samples and is kept as an unbounded integer. Each call uses
  the next answer of \<open>encodes\<close>.
\<close>

definition encode_audio_frame :: "library \<Rightarrow> int option \<Rightarrow> state \<Rightarrow> int \<times> bool \<times> state" where
  "encode_audio_frame e frame s =
     (let a = encodes e (n_encodes s);
          s = s\<lparr>n_encodes := Suc (n_encodes s)\<rparr>;
          stamped = (case frame of None \<Rightarrow> None | Some n \<Rightarrow> Some (pts s, n));
          s = (case frame of None \<Rightarrow> s | Some n \<Rightarrow> s\<lparr>pts := pts s + n\<rparr>)
      in
      if avcodec_encode_audio2 a < 0 then
        (avcodec_encode_audio2 a, False, emit (Stderr ''Could not encode frame.'') s)
      else
      let s = emit (Encoded stamped (pts s) (got_packet a)) s in
      if got_packet a then
        (if av_write_frame a < 0 then
           (av_write_frame a, True, emit (Stderr ''Could not write frame.'') s)
         else (0, True, s))
      else (0, False, s))"

definition load_encode_and_write :: "library \<Rightarrow> AVCodecContext \<Rightarrow> state \<Rightarrow> int \<times> state" where
  "load_encode_and_write e output_ctx s =
     (let a = encodes e (n_encodes s);
          frame_size' = min (fifo_size s) (frame_size output_ctx)
      in
      case init_output_frame a of
        (error, printed) \<Rightarrow>
          let s = emits printed s in
          if error \<noteq> 0 then (AVERROR_EXIT, s)
          else if av_audio_fifo_read a < frame_size' then
            (AVERROR_EXIT, emit (Stderr ''Could not read data from FIFO.'') s)
          else
          let s = s\<lparr>fifo_size := fifo_size s - frame_size'\<rparr> in
          case encode_audio_frame e (Some frame_size') s of
            (error, data_written, s) \<Rightarrow> if error \<noteq> 0 then (AVERROR_EXIT, s) else (0, s))"

subsection \<open>The loops of transcoding\<close>

text \<open>
  How a loop is left: control falls through to the statement behind it, it jumps to the
  \<open>cleanup\<close> label of \<open>transcoding\<close>, or a call inside it has crashed.
\<close>

datatype exit = Falls_through | Goto_cleanup | Crash

text \<open>
  Each loop takes fuel, one unit for every test of its condition, and is \<open>None\<close> when the fuel
  runs out.

  Lines 922 to 944: \<open>while (av_audio_fifo_size(fifo) < output_frame_size)\<close>.
\<close>

fun fill_loop ::
  "library \<Rightarrow> AVCodecContext \<Rightarrow> AVCodecContext \<Rightarrow> nat \<Rightarrow> bool \<Rightarrow> state
     \<Rightarrow> (exit \<times> bool \<times> state) option"
where
  "fill_loop e input_ctx output_ctx 0 finished s = None"
| "fill_loop e input_ctx output_ctx (Suc k) finished s =
     (if fifo_size s < frame_size output_ctx then
        (case read_decode_convert_and_store e input_ctx output_ctx finished s of
           (Crashed, finished', s') \<Rightarrow> Some (Crash, finished', s')
         | (Returned error, finished', s') \<Rightarrow>
             if error \<noteq> 0 then Some (Goto_cleanup, finished', s')
             else if finished' then Some (Falls_through, finished', s')
             else fill_loop e input_ctx output_ctx k finished' s')
      else Some (Falls_through, finished, s))"

text \<open>Lines 951 to 962: the loop around \<open>load_encode_and_write\<close>.\<close>

fun drain_loop ::
  "library \<Rightarrow> AVCodecContext \<Rightarrow> bool \<Rightarrow> nat \<Rightarrow> state \<Rightarrow> (exit \<times> state) option"
where
  "drain_loop e output_ctx finished 0 s = None"
| "drain_loop e output_ctx finished (Suc k) s =
     (if fifo_size s \<ge> frame_size output_ctx \<or> (finished \<and> fifo_size s > 0) then
        (case load_encode_and_write e output_ctx s of
           (error, s') \<Rightarrow>
             if error \<noteq> 0 then Some (Goto_cleanup, s')
             else drain_loop e output_ctx finished k s')
      else Some (Falls_through, s))"

text \<open>Lines 972 to 980: \<open>do { encode_audio_frame(&pts, NULL, ...) } while (data_written)\<close>.\<close>

fun flush_loop :: "library \<Rightarrow> nat \<Rightarrow> state \<Rightarrow> (exit \<times> state) option" where
  "flush_loop e 0 s = None"
| "flush_loop e (Suc k) s =
     (case encode_audio_frame e None s of
        (error, data_written, s') \<Rightarrow>
          if error \<noteq> 0 then Some (Goto_cleanup, s')
          else if data_written then flush_loop e k s'
          else Some (Falls_through, s'))"

text \<open>Lines 909 to 984: \<open>while (1)\<close>; \<open>fuel\<close> bounds each inner loop, \<open>k\<close> the outer one.\<close>

fun main_loop ::
  "library \<Rightarrow> AVCodecContext \<Rightarrow> AVCodecContext \<Rightarrow> nat \<Rightarrow> nat \<Rightarrow> state \<Rightarrow> (exit \<times> state) option"
where
  "main_loop e input_ctx output_ctx fuel 0 s = None"
| "main_loop e input_ctx output_ctx fuel (Suc k) s =
     (case fill_loop e input_ctx output_ctx fuel False s of
        None \<Rightarrow> None
      | Some (Crash, finished, s1) \<Rightarrow> Some (Crash, s1)
      | Some (Goto_cleanup, finished, s1) \<Rightarrow> Some (Goto_cleanup, s1)
      | Some (Falls_through, finished, s1) \<Rightarrow>
          (case drain_loop e output_ctx finished fuel s1 of
             None \<Rightarrow> None
           | Some (Crash, s2) \<Rightarrow> Some (Crash, s2)
           | Some (Goto_cleanup, s2) \<Rightarrow> Some (Goto_cleanup, s2)
           | Some (Falls_through, s2) \<Rightarrow>
               if finished then flush_loop e fuel s2
               else main_loop e input_ctx output_ctx fuel k s2))"

subsection \<open>transcoding\<close>

text \<open>The \<open>cleanup\<close> label, lines 1002 to 1026.\<close>

definition cleanup :: "state \<Rightarrow> state" where
  "cleanup s =
     (let s = (if fifo s then emit (Free Fifo) s else s);
          s = (if resample_context s
               then (emit (Free Resample_context) s)\<lparr>resample_context := False\<rparr> else s);
          s = (case output_codec_context s of
                 Some c \<Rightarrow> (emit (Free Output_codec_context) s)\<lparr>output_codec_context := None\<rparr>
               | None \<Rightarrow> s);
          s = (if output_format_context s then emit (Free Output_format_context) s else s);
          s = (case input_codec_context s of
                 Some c \<Rightarrow> (emit (Free Input_codec_context) s)\<lparr>input_codec_context := None\<rparr>
               | None \<Rightarrow> s)
      in if input_format_context s then avformat_close_input s else s)"

text \<open>
  Lines 992 to 998: the assignments through the out-parameters. \<open>pts\<close> and the sample rate
  are converted to \<open>float\<close> and divided; \<open>8 * bio->size\<close> is computed in the type of \<open>size\<close>,
  converted to \<open>float\<close>, divided by \<open>*out_duration\<close>, and the quotient is converted to \<open>int\<close>.
  The result tells whether these steps are defined, and the caller's memory: as it is at the
  first undefined step, or after the last assignment.
\<close>

definition report ::
  "library \<Rightarrow> AVCodecContext \<Rightarrow> state \<Rightarrow> caller_memory \<Rightarrow> bool \<times> caller_memory"
where
  "report e output_ctx s mem =
     (let mem = mem\<lparr>p_dst_buf := \<lparr>buf = Some Dst_buf, buf_size = final_size e\<rparr>\<rparr>;
          mem = mem\<lparr>out_duration :=
                      float_div (float_of_int (pts s)) (float_of_int (sample_rate output_ctx))\<rparr>
      in case c_times8 (size_type e) (final_size e) of
           None \<Rightarrow> (False, mem)
         | Some bits \<Rightarrow>
             (case int_of_float (float_div (float_of_int bits) (out_duration mem)) of
                None \<Rightarrow> (False, mem)
              | Some rate \<Rightarrow>
                  let mem = mem\<lparr>out_bit_rate := rate\<rparr>
                  in (True, mem\<lparr>out_bit_rate := out_bit_rate mem - c_rem (out_bit_rate mem) 1000\<rparr>)))"

text \<open>
  Lines 887 to 1000, once both streams are open. The result is the outcome, the caller's
  memory and the state at the return; \<open>None\<close> when the fuel runs out in a loop.
\<close>

definition transcode_streams ::
  "library \<Rightarrow> nat \<Rightarrow> caller_memory \<Rightarrow> AVCodecContext \<Rightarrow> AVCodecContext \<Rightarrow> state
     \<Rightarrow> (outcome \<times> caller_memory \<times> state) option"
where
  "transcode_streams e fuel mem input_ctx output_ctx s =
     (case init_resampler e s of
        (error, s) \<Rightarrow>
          if error \<noteq> 0 then Some (Returned (AVERROR AVERROR_EXIT), mem, cleanup s)
          else
          (case init_fifo (Some Local_fifo) e s of
            (Crashed, s) \<Rightarrow> Some (Crashed, mem, s)
          | (Returned error, s) \<Rightarrow>
              if error \<noteq> 0 then Some (Returned (AVERROR AVERROR_EXIT), mem, cleanup s)
              else
              (case write_output_file_header e s of
                (error, s) \<Rightarrow>
                  if error \<noteq> 0 then Some (Returned (AVERROR AVERROR_EXIT), mem, cleanup s)
                  else if \<not> fifo s then Some (Crashed, mem, s)
                  else
                  (case main_loop e input_ctx output_ctx fuel fuel s of
                    None \<Rightarrow> None
                  | Some (Crash, s) \<Rightarrow> Some (Crashed, mem, s)
                  | Some (Goto_cleanup, s) \<Rightarrow>
                      Some (Returned (AVERROR AVERROR_EXIT), mem, cleanup s)
                  | Some (Falls_through, s) \<Rightarrow>
                      (case write_output_file_trailer e s of
                         (error, s) \<Rightarrow>
                           if error \<noteq> 0 then
                             Some (Returned (AVERROR AVERROR_EXIT), mem, cleanup s)
                           else
                           (case report e output_ctx s mem of
                              (False, mem) \<Rightarrow> Some (Crashed, mem, s)
                            | (True, mem) \<Rightarrow> Some (Returned 0, mem, cleanup s)))))))"

text \<open>
  \<open>transcoding\<close>, lines 840 to 1027. \<open>src_size\<close> is \<open>src_buf.size\<close>. A null \<open>fifo\<close> after
  \<open>init_fifo\<close> is dereferenced by \<open>av_audio_fifo_size\<close> at the first loop test.
\<close>

definition transcoding ::
  "library \<Rightarrow> nat \<Rightarrow> caller_memory \<Rightarrow> TranscodingArgs \<Rightarrow> int
     \<Rightarrow> (outcome \<times> caller_memory \<times> state) option"
where
  "transcoding e fuel mem args src_size =
     (case open_input_stream e initial_state of
        (Crashed, s) \<Rightarrow> Some (Crashed, mem, s)
      | (Returned error, s) \<Rightarrow>
          if error \<noteq> 0 then Some (Returned (AVERROR AVERROR_EXIT), mem, cleanup s)
          else
          let estimated_bytes = (if arg_bit_rate args > 0 then estimated_from_duration (on_output e)
                                 else src_size div 18)
          in
          if \<not> dst_bio_malloc_ok (on_output e) then Some (Crashed, mem, s)
          else
          let s = emit (Alloc Dst_bio) s in
          if \<not> dst_buf_malloc_ok (on_output e) then
            Some (Returned (AVERROR ENOMEM), mem, cleanup s)
          else
          let s = emit (Alloc Dst_buf) (s\<lparr>dst_total := estimated_bytes\<rparr>) in
          (case input_codec_context s of
            None \<Rightarrow> Some (Crashed, mem, s)
          | Some input_ctx \<Rightarrow>
              (case open_output_stream e args input_ctx s of
                 (error, s) \<Rightarrow>
                   if error \<noteq> 0 then Some (Returned (AVERROR AVERROR_EXIT), mem, cleanup s)
                   else
                   (case output_codec_context s of
                      None \<Rightarrow> Some (Crashed, mem, s)
                    | Some output_ctx \<Rightarrow>
                        transcode_streams e fuel mem input_ctx output_ctx s))))"

subsection \<open>Concrete calls\<close>

text \<open>
  A mono source of 2304 samples at 44100 Hz, read in two frames, and an MP3 encoder with
  frames of 1152 samples that gives two more packets when it is flushed. \<open>AV_CH_LAYOUT_MONO\<close> is 4
  and \<open>AV_CH_LAYOUT_STEREO\<close> is 3.
\<close>

definition default_layout :: "int \<Rightarrow> 64 word" where
  "default_layout n = (if n = 1 then 4 else if n = 2 then 3 else 0)"

definition pcm_ctx :: AVCodecContext where
  "pcm_ctx = \<lparr>channels = 1, channel_layout = 0, sample_fmt = 1, sample_rate = 44100,
              bit_rate = 705600, frame_size = 0, global_header = False\<rparr>"

definition fresh_ctx :: AVCodecContext where
  "fresh_ctx = \<lparr>channels = 0, channel_layout = 0, sample_fmt = - 1, sample_rate = 0,
                bit_rate = 128000, frame_size = 0, global_header = False\<rparr>"

definition mp3_encoder :: AVCodec where
  "mp3_encoder = \<lparr>codec_id = AV_CODEC_ID_OTHER 86017, codec_name = ''libmp3lame'',
                  channel_layouts = Some [4, 3], sample_fmts = Some [7, 8, 6],
                  supported_samplerates = Some [44100, 48000, 32000, 22050]\<rparr>"

definition opus_encoder :: AVCodec where
  "opus_encoder = \<lparr>codec_id = AV_CODEC_ID_OPUS, codec_name = ''libopus'',
                   channel_layouts = None, sample_fmts = Some [1, 3],
                   supported_samplerates = Some [48000, 24000, 16000, 12000, 8000]\<rparr>"

definition no_args :: TranscodingArgs where
  "no_args = \<lparr>format_name = ''mp3'', arg_bit_rate = 0, arg_sample_rate = 0\<rparr>"

definition xyz_args :: TranscodingArgs where
  "xyz_args = \<lparr>format_name = ''xyz'', arg_bit_rate = 0, arg_sample_rate = 0\<rparr>"

definition args_22050 :: TranscodingArgs where
  "args_22050 = \<lparr>format_name = ''mp3'', arg_bit_rate = 0, arg_sample_rate = 22050\<rparr>"

definition args_11025 :: TranscodingArgs where
  "args_11025 = \<lparr>format_name = ''mp3'', arg_bit_rate = 0, arg_sample_rate = 11025\<rparr>"

definition good_input :: input_answers where
  "good_input =
     \<lparr>avformat_alloc_context_ok = True, input_bio_malloc_ok = True,
      input_init_io_context_default = 0, avformat_open_input = 0, avformat_find_stream_info = 0,
      streams = [\<lparr>codec_type = AVMEDIA_TYPE_AUDIO, par_channels = 1\<rparr>],
      avcodec_find_decoder_ok = True, decoder_alloc_context3_ok = True,
      avcodec_parameters_to_context = 0, decoder_ctx = pcm_ctx, decoder_avcodec_open2 = 0\<rparr>"

definition good_output :: output_answers where
  "good_output =
     \<lparr>estimated_from_duration = 0, dst_bio_malloc_ok = True, dst_buf_malloc_ok = True,
      avformat_alloc_output_context2 = 0, output_init_io_context_default = 0,
      avcodec_find_encoder = Some mp3_encoder, avformat_new_stream_ok = True,
      encoder_alloc_context3 = Some fresh_ctx, oformat_globalheader = False,
      encoder_avcodec_open2 = 0, encoder_frame_size = 1152,
      avcodec_parameters_from_context = 0, swr_alloc_ok = True, swr_init = 0,
      av_audio_fifo_alloc_ok = True, avformat_write_header = 0\<rparr>"

definition frame_read :: read_answers where
  "frame_read =
     \<lparr>input_frame_alloc_ok = True, av_read_frame = 0, avcodec_decode_audio4 = 2304,
      decoded_data_present = True, nb_samples = 1152, swr_get_delay = 0, calloc_ok = True,
      av_samples_alloc = 4608, swr_convert = 1152, av_audio_fifo_realloc = 0,
      av_audio_fifo_write = 1152\<rparr>"

definition eof_read :: read_answers where
  "eof_read = frame_read\<lparr>av_read_frame := AVERROR_EOF, avcodec_decode_audio4 := 0,
                          decoded_data_present := False\<rparr>"

definition packet_encode :: encode_answers where
  "packet_encode =
     \<lparr>output_frame_alloc_ok = True, av_frame_get_buffer = 0, av_audio_fifo_read = 1152,
      avcodec_encode_audio2 = 0, got_packet = True, av_write_frame = 0\<rparr>"

definition good_library :: library where
  "good_library =
     \<lparr>on_input = good_input, on_output = good_output,
      av_get_default_channel_layout = default_layout,
      reads = (\<lambda>n. if n < 2 then frame_read else eof_read),
      encodes = (\<lambda>n. if n < 4 then packet_encode else packet_encode\<lparr>got_packet := False\<rparr>),
      av_write_trailer = 0, final_size = 1250, size_type = Unsigned 64\<rparr>"

text \<open>
  The same source when the output container cannot be allocated, as for the format name of
  \<open>xyz_args\<close>: \<open>avformat_alloc_output_context2\<close> returns \<open>AVERROR(EINVAL)\<close>.
\<close>

definition unknown_format_library :: library where
  "unknown_format_library =
     good_library\<lparr>on_output := good_output\<lparr>avformat_alloc_output_context2 := - 22\<rparr>\<rparr>"

text \<open>A container whose only stream is a video stream.\<close>

definition video_only_library :: library where
  "video_only_library =
     good_library\<lparr>on_input :=
       good_input\<lparr>streams := [\<lparr>codec_type = AVMEDIA_TYPE_VIDEO, par_channels = 0\<rparr>],
                   decoder_ctx := pcm_ctx\<lparr>channels := 0\<rparr>\<rparr>\<rparr>"

text \<open>A container with one audio and one video stream.\<close>

definition two_stream_library :: library where
  "two_stream_library =
     good_library\<lparr>on_input :=
       good_input\<lparr>streams := [\<lparr>codec_type = AVMEDIA_TYPE_AUDIO, par_channels = 1\<rparr>,
                              \<lparr>codec_type = AVMEDIA_TYPE_VIDEO, par_channels = 0\<rparr>]\<rparr>\<rparr>"

text \<open>The same source when \<open>av_audio_fifo_alloc\<close> returns \<open>NULL\<close>.\<close>

definition fifo_failure_library :: library where
  "fifo_failure_library = good_library\<lparr>on_output := good_output\<lparr>av_audio_fifo_alloc_ok := False\<rparr>\<rparr>"

text \<open>
  A source of 817920 samples at 44100 Hz, about 18.5 seconds, read in 710 frames; the MP3
  output takes 296751 bytes.
\<close>

definition long_library :: library where
  "long_library =
     good_library\<lparr>reads := (\<lambda>n. if n < 710 then frame_read else eof_read),
                  encodes := (\<lambda>n. if n < 712 then packet_encode
                                   else packet_encode\<lparr>got_packet := False\<rparr>),
                  final_size := 296751\<rparr>"

text \<open>The same source when the first packet cannot be written to the container.\<close>

definition write_failure_library :: library where
  "write_failure_library = good_library\<lparr>encodes := (\<lambda>n. packet_encode\<lparr>av_write_frame := - 5\<rparr>)\<rparr>"

definition caller_memory0 :: caller_memory where
  "caller_memory0 = \<lparr>p_dst_buf = \<lparr>buf = None, buf_size = 0\<rparr>, out_bit_rate = 0,
                     out_duration = Finite 0\<rparr>"

text \<open>
  The contexts and the state of these calls when the header is written and the loop starts.
\<close>

definition ready_input_ctx :: AVCodecContext where
  "ready_input_ctx = pcm_ctx\<lparr>channel_layout := 4\<rparr>"

definition ready_output_ctx :: AVCodecContext where
  "ready_output_ctx = \<lparr>channels = 1, channel_layout = 4, sample_fmt = 7, sample_rate = 44100,
                        bit_rate = 128000, frame_size = 1152, global_header = False\<rparr>"

definition ready_state :: state where
  "ready_state =
     \<lparr>trace = [Alloc Input_format_context, Alloc Input_bio, Alloc Input_codec_context,
               Alloc Dst_bio, Alloc Dst_buf, Alloc Output_format_context,
               Alloc Output_codec_context, Alloc Resample_context, Alloc Fifo],
      input_format_context = True, input_codec_context = Some ready_input_ctx,
      output_format_context = True, output_codec_context = Some ready_output_ctx,
      resample_context = True, fifo = True, fifo_size = 0, pts = 0, dst_total = 130,
      n_reads = 0, n_encodes = 0\<rparr>"

text \<open>What a call of \<open>transcoding\<close> gave: its outcome, the caller's memory and the trace.\<close>

definition outcome_of :: "(outcome \<times> caller_memory \<times> state) option \<Rightarrow> outcome option" where
  "outcome_of r = (case r of None \<Rightarrow> None | Some (oc, mem, s) \<Rightarrow> Some oc)"

definition memory_of :: "(outcome \<times> caller_memory \<times> state) option \<Rightarrow> caller_memory option" where
  "memory_of r = (case r of None \<Rightarrow> None | Some (oc, mem, s) \<Rightarrow> Some mem)"

definition trace_of :: "(outcome \<times> caller_memory \<times> state) option \<Rightarrow> event list" where
  "trace_of r = (case r of None \<Rightarrow> [] | Some (oc, mem, s) \<Rightarrow> trace s)"

text \<open>What was added to the trace between two states.\<close>

definition new_events :: "state \<Rightarrow> state \<Rightarrow> event list" where
  "new_events s s' = drop (length (trace s)) (trace s')"

text \<open>A trace grows by events that all satisfy \<open>P\<close>.\<close>

definition grows_by :: "(event \<Rightarrow> bool) \<Rightarrow> event list \<Rightarrow> event list \<Rightarrow> bool" where
  "grows_by P t t' \<longleftrightarrow> (\<exists>evs. t' = t @ evs \<and> (\<forall>ev \<in> set evs. P ev))"

subsection \<open>The words of the specification\<close>

text \<open>
  Step 3 of the negotiation as the specification words it. The target sample rate is
  optional: the caller has requested a rate when the field of the arguments is positive.
\<close>

definition requested_rate :: "TranscodingArgs \<Rightarrow> int option" where
  "requested_rate args =
     (if 0 < arg_sample_rate args then Some (arg_sample_rate args) else None)"

text \<open>The candidate is the requested rate if one was given, otherwise the input's rate.\<close>

definition spec_candidate_rate :: "TranscodingArgs \<Rightarrow> AVCodecContext \<Rightarrow> int" where
  "spec_candidate_rate args input_ctx =
     (case requested_rate args of Some rate \<Rightarrow> rate | None \<Rightarrow> sample_rate input_ctx)"

text \<open>
  An encoder without restrictions takes the candidate as it is, an encoder with a declared
  set takes it when it is a member and its first declared rate otherwise.
\<close>

definition spec_negotiated_rate :: "TranscodingArgs \<Rightarrow> AVCodec \<Rightarrow> AVCodecContext \<Rightarrow> int" where
  "spec_negotiated_rate args encoder input_ctx =
     (case supported_samplerates encoder of
        None \<Rightarrow> spec_candidate_rate args input_ctx
      | Some rates \<Rightarrow>
          if spec_candidate_rate args input_ctx \<in> declared 0 rates
          then spec_candidate_rate args input_ctx
          else first_cell 0 rates)"

text \<open>
  The warning is recorded when the rate falls back to the first declared one and the caller
  had requested a rate.
\<close>

definition spec_rate_warning :: "TranscodingArgs \<Rightarrow> AVCodec \<Rightarrow> AVCodecContext \<Rightarrow> bool" where
  "spec_rate_warning args encoder input_ctx =
     (case supported_samplerates encoder of
        None \<Rightarrow> False
      | Some rates \<Rightarrow>
          spec_candidate_rate args input_ctx \<notin> declared 0 rates \<and> requested_rate args \<noteq> None)"

text \<open>The number of audio streams of the source's container.\<close>

definition audio_stream_count :: "library \<Rightarrow> nat" where
  "audio_stream_count e =
     length (filter (\<lambda>p. codec_type p = AVMEDIA_TYPE_AUDIO) (streams (on_input e)))"

text \<open>
  The capacity the specification asks for: the samples pending in the resampler plus those of
  the new frame, times the output rate over the input rate, rounded up.
\<close>

definition spec_capacity :: "int \<Rightarrow> int \<Rightarrow> int \<Rightarrow> int \<Rightarrow> int" where
  "spec_capacity delay sample_count output_rate input_rate =
     \<lceil>real_of_int ((delay + sample_count) * output_rate) / real_of_int input_rate\<rceil>"

text \<open>
  The bit rate the specification reports: \<open>8 * destinationSize / duration\<close>, rounded down to
  an integer and then down to a multiple of 1000.
\<close>

definition spec_bit_rate :: "int \<Rightarrow> real \<Rightarrow> int" where
  "spec_bit_rate destination_size duration =
     1000 * (\<lfloor>real_of_int (8 * destination_size) / duration\<rfloor> div 1000)"

text \<open>
  The same with the arithmetic of \<open>float\<close>: the number of bits is rounded to binary32, and so
  is its quotient by the duration.
\<close>

definition binary32 :: "real \<Rightarrow> real" where
  "binary32 x = (case round32 x of Finite r \<Rightarrow> r | Infinity \<Rightarrow> 0 | NaN \<Rightarrow> 0)"

definition float_bit_rate :: "int \<Rightarrow> real \<Rightarrow> int" where
  "float_bit_rate destination_size duration =
     1000 * (\<lfloor>binary32 (binary32 (real_of_int (8 * destination_size)) / duration)\<rfloor> div 1000)"

text \<open>
  The accumulator at every packet written, flush packets included, in the order of writing.
\<close>

fun written_accumulators :: "event list \<Rightarrow> int list" where
  "written_accumulators [] = []"
| "written_accumulators (Encoded f a True # evs) = a # written_accumulators evs"
| "written_accumulators (ev # evs) = written_accumulators evs"

text \<open>
  The stamps of a trace are chained from \<open>a\<close>: every chunk is stamped with the accumulator as
  the chunk before left it, has a positive sample count and advances the accumulator by that
  count; a flush call leaves the accumulator as it is.
\<close>

fun stamps_chained :: "int \<Rightarrow> event list \<Rightarrow> bool" where
  "stamps_chained a [] = True"
| "stamps_chained a (Encoded (Some (p, n)) a' w # evs) =
     (p = a \<and> a' = a + n \<and> 0 < n \<and> stamps_chained a' evs)"
| "stamps_chained a (Encoded None a' w # evs) = (a' = a \<and> stamps_chained a' evs)"
| "stamps_chained a (ev # evs) = stamps_chained a evs"

text \<open>The events that carry a stamp.\<close>

fun is_stamp :: "event \<Rightarrow> bool" where
  "is_stamp (Encoded f a w) = True"
| "is_stamp ev = False"

text \<open>The accumulator after every chunk, in order, and after the whole trace.\<close>

fun chunk_accumulators :: "event list \<Rightarrow> int list" where
  "chunk_accumulators [] = []"
| "chunk_accumulators (Encoded (Some c) a w # evs) = a # chunk_accumulators evs"
| "chunk_accumulators (ev # evs) = chunk_accumulators evs"

fun last_accumulator :: "int \<Rightarrow> event list \<Rightarrow> int" where
  "last_accumulator a [] = a"
| "last_accumulator a (Encoded f a' w # evs) = last_accumulator a' evs"
| "last_accumulator a (ev # evs) = last_accumulator a evs"

text \<open>
  The invariant of the loops: the stamps of the trace are chained from 0 and end at \<open>*pts\<close>.
\<close>

definition stamps_follow :: "state \<Rightarrow> bool" where
  "stamps_follow s \<longleftrightarrow> stamps_chained 0 (trace s) \<and> last_accumulator 0 (trace s) = pts s"


section \<open>Properties\<close>

lemma scan_found_declared: "scan_found t xs v \<longleftrightarrow> v \<in> declared t xs"
  by (induction xs) (auto simp: declared_def)

subsection \<open>Traces\<close>

lemma grows_by_append: "grows_by P t (t @ evs) \<longleftrightarrow> (\<forall>ev \<in> set evs. P ev)"
  by (auto simp: grows_by_def)

lemma grows_by_refl: "grows_by P t t"
  by (simp add: grows_by_def)

lemma grows_by_new_events:
  "grows_by P (trace s) (trace s') \<Longrightarrow> ev \<in> set (new_events s s') \<Longrightarrow> P ev"
  by (auto simp: grows_by_def new_events_def)

lemma trace_of_simps: "trace_of (Some (oc, mem, s)) = trace s" "trace_of None = []"
  by (simp_all add: trace_of_def)

subsection \<open>Negotiation of the output parameters\<close>

lemma negotiate_layout_snd:
  "snd (negotiate_layout L ectx enc ictx) =
     ectx\<lparr>channels := channels ictx, channel_layout := L (channels ictx),
          sample_fmt := sample_fmt ictx\<rparr>"
  by (simp add: negotiate_layout_def Let_def split: option.split)

lemma negotiate_layout_fst:
  "fst (negotiate_layout L ectx enc ictx) \<longleftrightarrow>
     (\<forall>ls. channel_layouts enc = Some ls \<longrightarrow> L (channels ictx) \<in> declared 0 ls)"
  by (simp add: negotiate_layout_def Let_def scan_found_declared split: option.split)

lemma negotiate_sample_fmt_fields:
  "channels (fst (negotiate_sample_fmt ctx enc ictx)) = channels ctx"
  "channel_layout (fst (negotiate_sample_fmt ctx enc ictx)) = channel_layout ctx"
  "sample_fmt (fst (negotiate_sample_fmt ctx enc ictx)) =
     (case sample_fmts enc of
        None \<Rightarrow> sample_fmt ctx
      | Some fs \<Rightarrow> if sample_fmt ictx \<in> declared (- 1) fs then sample_fmt ctx
                   else first_cell (- 1) fs)"
  by (simp_all add: negotiate_sample_fmt_def scan_found_declared split: option.split)

lemma negotiate_sample_rate_other:
  "channels (fst (negotiate_sample_rate args ctx enc ictx)) = channels ctx"
  "channel_layout (fst (negotiate_sample_rate args ctx enc ictx)) = channel_layout ctx"
  "sample_fmt (fst (negotiate_sample_rate args ctx enc ictx)) = sample_fmt ctx"
  by (simp_all add: negotiate_sample_rate_def Let_def split: option.split)

lemma negotiate_sample_rate_prints:
  "snd (negotiate_sample_rate args ctx enc ictx) = []
   \<or> snd (negotiate_sample_rate args ctx enc ictx) =
       [Stdout ''The encoder doesn't support the sample rate you specified'']"
  by (simp add: negotiate_sample_rate_def Let_def split: option.split)

lemma candidate_rate_spec: "candidate_rate args ictx = spec_candidate_rate args ictx"
  by (simp add: candidate_rate_def spec_candidate_rate_def requested_rate_def)

lemma negotiate_sample_rate_fst:
  "fst (negotiate_sample_rate args ctx enc ictx) =
     ctx\<lparr>sample_rate := spec_negotiated_rate args enc ictx\<rparr>"
  by (simp add: negotiate_sample_rate_def spec_negotiated_rate_def candidate_rate_spec
        scan_found_declared Let_def
      split: option.split)

lemma negotiate_sample_rate_snd:
  "snd (negotiate_sample_rate args ctx enc ictx) =
     (if spec_rate_warning args enc ictx
      then [Stdout ''The encoder doesn't support the sample rate you specified''] else [])"
  by (simp add: negotiate_sample_rate_def spec_rate_warning_def candidate_rate_spec
        requested_rate_def scan_found_declared Let_def
      split: option.split)

lemma set_encoder_params_eq:
  "set_encoder_params L args ectx enc ictx =
     (if fst (negotiate_layout L ectx enc ictx)
      then (0,
            override_opus_and_bit_rate args
              (fst (negotiate_sample_rate args
                 (fst (negotiate_sample_fmt (snd (negotiate_layout L ectx enc ictx)) enc ictx))
                 enc ictx)) enc,
            snd (negotiate_sample_fmt (snd (negotiate_layout L ectx enc ictx)) enc ictx)
            @ snd (negotiate_sample_rate args
                 (fst (negotiate_sample_fmt (snd (negotiate_layout L ectx enc ictx)) enc ictx))
                 enc ictx))
      else (- 1, snd (negotiate_layout L ectx enc ictx),
            [Stderr ''channel layout is not supported'']))"
  by (simp add: set_encoder_params_def split: prod.split bool.split)

lemma override_sample_rate:
  "sample_rate (override_opus_and_bit_rate args ctx enc) =
     (if codec_id enc = AV_CODEC_ID_OPUS then 48000 else sample_rate ctx)"
  by (simp add: override_opus_and_bit_rate_def Let_def)

lemma override_other:
  "channels (override_opus_and_bit_rate args ctx enc) = channels ctx"
  "channel_layout (override_opus_and_bit_rate args ctx enc) = channel_layout ctx"
  "sample_fmt (override_opus_and_bit_rate args ctx enc) = sample_fmt ctx"
  by (simp_all add: override_opus_and_bit_rate_def Let_def)

lemmas concrete_codec_defs =
  default_layout_def pcm_ctx_def fresh_ctx_def mp3_encoder_def opus_encoder_def no_args_def
  args_11025_def

text \<open>
  C5. In \<open>set_encoder_params\<close> (lines 194 to 228) the candidate rate is the rate the caller
  requested if one was given and the input's rate otherwise. The sample-rate step leaves in
  the encoder context the rate the specification words: the candidate when the encoder
  declares no rates or declares this one, the encoder's first declared rate otherwise. The
  replacement is printed as a warning exactly when a rate was requested, and it is no error:
  whenever the layout step passes, the function returns 0, and unless the encoder is Opus
  the rate of the step is the rate of the result.
\<close>

theorem sample_rate_negotiation:
  "candidate_rate args ictx = spec_candidate_rate args ictx
   \<and> fst (negotiate_sample_rate args ctx enc ictx) =
       ctx\<lparr>sample_rate := spec_negotiated_rate args enc ictx\<rparr>
   \<and> snd (negotiate_sample_rate args ctx enc ictx) =
       (if spec_rate_warning args enc ictx
        then [Stdout ''The encoder doesn't support the sample rate you specified''] else [])
   \<and> (fst (negotiate_layout L ectx enc ictx) \<longrightarrow>
        fst (set_encoder_params L args ectx enc ictx) = 0
        \<and> (codec_id enc \<noteq> AV_CODEC_ID_OPUS \<longrightarrow>
             sample_rate (fst (snd (set_encoder_params L args ectx enc ictx))) =
               spec_negotiated_rate args enc ictx))"
  by (simp add: candidate_rate_spec negotiate_sample_rate_fst negotiate_sample_rate_snd
        set_encoder_params_eq override_sample_rate)

text \<open>
  The MP3 encoder declares 44100, 48000, 32000 and 22050 Hz; the source has 44100 Hz. A
  request for 22050 Hz is the candidate and is kept. Without a request the candidate is the
  input's rate: 44100 Hz for the source, 32000 Hz for a source of 32000 Hz, both kept, and
  for a source of 11025 Hz the first declared rate replaces it without a warning. A request
  for 11025 Hz is replaced by 44100 Hz with the warning and the return value 0; an encoder
  that declares no rates keeps it.
\<close>

theorem sample_rate_negotiation_witness:
  "fst (negotiate_layout default_layout fresh_ctx mp3_encoder pcm_ctx)
   \<and> codec_id mp3_encoder \<noteq> AV_CODEC_ID_OPUS
   \<and> candidate_rate args_22050 pcm_ctx = 22050
   \<and> sample_rate (fst (snd (set_encoder_params default_layout args_22050 fresh_ctx mp3_encoder
        pcm_ctx))) = 22050
   \<and> snd (negotiate_sample_rate args_22050 fresh_ctx mp3_encoder pcm_ctx) = []
   \<and> candidate_rate no_args pcm_ctx = 44100
   \<and> sample_rate (fst (snd (set_encoder_params default_layout no_args fresh_ctx mp3_encoder
        pcm_ctx))) = 44100
   \<and> candidate_rate no_args (pcm_ctx\<lparr>sample_rate := 32000\<rparr>) = 32000
   \<and> sample_rate (fst (negotiate_sample_rate no_args fresh_ctx mp3_encoder
        (pcm_ctx\<lparr>sample_rate := 32000\<rparr>))) = 32000
   \<and> candidate_rate no_args (pcm_ctx\<lparr>sample_rate := 11025\<rparr>) = 11025
   \<and> sample_rate (fst (negotiate_sample_rate no_args fresh_ctx mp3_encoder
        (pcm_ctx\<lparr>sample_rate := 11025\<rparr>))) = 44100
   \<and> snd (negotiate_sample_rate no_args fresh_ctx mp3_encoder
        (pcm_ctx\<lparr>sample_rate := 11025\<rparr>)) = []
   \<and> candidate_rate args_11025 pcm_ctx = 11025
   \<and> fst (set_encoder_params default_layout args_11025 fresh_ctx mp3_encoder pcm_ctx) = 0
   \<and> sample_rate (fst (snd (set_encoder_params default_layout args_11025 fresh_ctx mp3_encoder
        pcm_ctx))) = 44100
   \<and> snd (negotiate_sample_rate args_11025 fresh_ctx mp3_encoder pcm_ctx) =
       [Stdout ''The encoder doesn't support the sample rate you specified'']
   \<and> sample_rate (fst (negotiate_sample_rate args_11025 fresh_ctx
        (mp3_encoder\<lparr>supported_samplerates := None\<rparr>) pcm_ctx)) = 11025
   \<and> snd (negotiate_sample_rate args_11025 fresh_ctx
        (mp3_encoder\<lparr>supported_samplerates := None\<rparr>) pcm_ctx) = []"
proof -
  have layout: "fst (negotiate_layout default_layout fresh_ctx mp3_encoder pcm_ctx)"
    by (simp add: negotiate_layout_def Let_def concrete_codec_defs)
  have other: "codec_id mp3_encoder \<noteq> AV_CODEC_ID_OPUS"
    by (simp add: mp3_encoder_def)
  have rates: "supported_samplerates mp3_encoder = Some [44100, 48000, 32000, 22050]"
    "supported_samplerates (mp3_encoder\<lparr>supported_samplerates := None\<rparr>) = None"
    by (simp_all add: mp3_encoder_def)
  have requested: "requested_rate args_22050 = Some 22050" "requested_rate no_args = None"
    "requested_rate args_11025 = Some 11025"
    by (simp_all add: requested_rate_def args_22050_def no_args_def args_11025_def)
  have source: "sample_rate pcm_ctx = 44100"
    by (simp add: pcm_ctx_def)
  have declared: "declared 0 [44100, 48000, 32000, 22050] = {44100, 48000, 32000, 22050 :: int}"
    by (auto simp: declared_def)
  note spec = spec_candidate_rate_def spec_negotiated_rate_def spec_rate_warning_def
  show ?thesis
    using sample_rate_negotiation [of args_22050 pcm_ctx fresh_ctx mp3_encoder default_layout
        fresh_ctx]
      sample_rate_negotiation [of no_args pcm_ctx fresh_ctx mp3_encoder default_layout
        fresh_ctx]
      sample_rate_negotiation [of no_args "pcm_ctx\<lparr>sample_rate := 32000\<rparr>" fresh_ctx
        mp3_encoder default_layout fresh_ctx]
      sample_rate_negotiation [of no_args "pcm_ctx\<lparr>sample_rate := 11025\<rparr>" fresh_ctx
        mp3_encoder default_layout fresh_ctx]
      sample_rate_negotiation [of args_11025 pcm_ctx fresh_ctx mp3_encoder default_layout
        fresh_ctx]
      sample_rate_negotiation [of args_11025 pcm_ctx fresh_ctx
        "mp3_encoder\<lparr>supported_samplerates := None\<rparr>" default_layout fresh_ctx]
      layout other
    by (simp add: spec rates requested source declared)
qed

text \<open>
  C6. Whenever \<open>set_encoder_params\<close> succeeds for the Opus encoder, the sample rate of the
  encoder context is 48000, whatever rate was requested, whatever the input's rate is and
  whatever the encoder declares.
\<close>

theorem opus_forces_48000:
  "fst (set_encoder_params L args ectx enc ictx) = 0 \<Longrightarrow> codec_id enc = AV_CODEC_ID_OPUS
     \<Longrightarrow> sample_rate (fst (snd (set_encoder_params L args ectx enc ictx))) = 48000"
  by (simp add: set_encoder_params_eq override_sample_rate split: if_splits)

theorem opus_forces_48000_witness:
  "fst (set_encoder_params default_layout args_11025 fresh_ctx opus_encoder pcm_ctx) = 0
   \<and> codec_id opus_encoder = AV_CODEC_ID_OPUS
   \<and> arg_sample_rate args_11025 = 11025 \<and> sample_rate pcm_ctx = 44100
   \<and> sample_rate (fst (snd (set_encoder_params default_layout args_11025 fresh_ctx opus_encoder
        pcm_ctx))) = 48000"
proof -
  have ok: "fst (set_encoder_params default_layout args_11025 fresh_ctx opus_encoder pcm_ctx) = 0"
    by (simp add: set_encoder_params_eq negotiate_layout_fst opus_encoder_def)
  have opus: "codec_id opus_encoder = AV_CODEC_ID_OPUS"
    by (simp add: opus_encoder_def)
  show ?thesis
    using opus_forces_48000 [OF ok opus] ok opus by (simp add: args_11025_def pcm_ctx_def)
qed

text \<open>
  C7. \<open>set_encoder_params\<close> always gives the encoder context the input's channel count and
  the default layout of that count. It fails exactly when the encoder declares layouts and
  this layout is not among them; it then returns -1 and prints the error, and no other
  layout is ever chosen. A sample format that the encoder does not declare is no failure:
  the first declared format is taken.
\<close>

theorem layout_negotiation:
  "channels (fst (snd (set_encoder_params L args ectx enc ictx))) = channels ictx
   \<and> channel_layout (fst (snd (set_encoder_params L args ectx enc ictx))) = L (channels ictx)
   \<and> (fst (set_encoder_params L args ectx enc ictx) \<noteq> 0 \<longleftrightarrow>
        (\<exists>ls. channel_layouts enc = Some ls \<and> L (channels ictx) \<notin> declared 0 ls))
   \<and> (fst (set_encoder_params L args ectx enc ictx) \<noteq> 0 \<longrightarrow>
        fst (set_encoder_params L args ectx enc ictx) = - 1
        \<and> snd (snd (set_encoder_params L args ectx enc ictx)) =
            [Stderr ''channel layout is not supported''])
   \<and> (fst (set_encoder_params L args ectx enc ictx) = 0 \<longrightarrow>
        (\<forall>fs. sample_fmts enc = Some fs \<longrightarrow> sample_fmt ictx \<notin> declared (- 1) fs
           \<longrightarrow> sample_fmt (fst (snd (set_encoder_params L args ectx enc ictx))) =
                 first_cell (- 1) fs))"
  by (simp add: set_encoder_params_eq override_other negotiate_sample_rate_other
        negotiate_sample_fmt_fields negotiate_layout_snd negotiate_layout_fst)

text \<open>
  A source with six channels and the MP3 encoder, which declares mono and stereo: the call
  fails with -1. The mono source passes, and its sample format 1, which the encoder does not
  declare, is replaced by the first declared format 7.
\<close>

theorem layout_negotiation_witness:
  "channel_layouts mp3_encoder = Some [4, 3]
   \<and> default_layout (channels (pcm_ctx\<lparr>channels := 6\<rparr>)) \<notin> declared 0 [4, 3]
   \<and> fst (set_encoder_params default_layout no_args fresh_ctx mp3_encoder
        (pcm_ctx\<lparr>channels := 6\<rparr>)) = - 1
   \<and> snd (snd (set_encoder_params default_layout no_args fresh_ctx mp3_encoder
        (pcm_ctx\<lparr>channels := 6\<rparr>))) = [Stderr ''channel layout is not supported'']
   \<and> fst (set_encoder_params default_layout no_args fresh_ctx mp3_encoder pcm_ctx) = 0
   \<and> sample_fmts mp3_encoder = Some [7, 8, 6] \<and> sample_fmt pcm_ctx \<notin> declared (- 1) [7, 8, 6]
   \<and> sample_fmt (fst (snd (set_encoder_params default_layout no_args fresh_ctx mp3_encoder
        pcm_ctx))) = 7"
proof -
  have layouts: "channel_layouts mp3_encoder = Some [4, 3]"
    by (simp add: mp3_encoder_def)
  have six: "default_layout (channels (pcm_ctx\<lparr>channels := 6\<rparr>)) \<notin> declared 0 [4, 3]"
    by (simp add: default_layout_def declared_def)
  have one: "default_layout (channels pcm_ctx) \<in> declared 0 [4, 3]"
    by (simp add: default_layout_def declared_def pcm_ctx_def)
  have fmts: "sample_fmts mp3_encoder = Some [7, 8, 6]"
    by (simp add: mp3_encoder_def)
  have fmt: "sample_fmt pcm_ctx \<notin> declared (- 1) [7, 8, 6]"
    by (simp add: declared_def pcm_ctx_def)
  show ?thesis
    using layout_negotiation [of default_layout no_args fresh_ctx mp3_encoder
        "pcm_ctx\<lparr>channels := 6\<rparr>"]
      layout_negotiation [of default_layout no_args fresh_ctx mp3_encoder pcm_ctx]
      layouts six one fmts fmt
    by simp
qed

subsection \<open>The arithmetic of float\<close>

lemma bit_length_numeral:
  "bit_length 0 = 0"
  "bit_length (Suc 0) = 1"
  "bit_length (numeral Num.One) = 1"
  "bit_length (numeral (Num.Bit0 n)) = Suc (bit_length (numeral n))"
  "bit_length (numeral (Num.Bit1 n)) = Suc (bit_length (numeral n))"
proof -
  show "bit_length 0 = 0"
    by (subst bit_length.simps) simp
  show one: "bit_length (Suc 0) = 1"
    by (subst bit_length.simps) (simp add: bit_length.simps [of 0])
  show "bit_length (numeral Num.One) = 1"
    using one by simp
  have "numeral (Num.Bit0 n) div 2 = (numeral n :: nat)"
    by simp
  then show "bit_length (numeral (Num.Bit0 n)) = Suc (bit_length (numeral n))"
    by (subst bit_length.simps) simp
  have "numeral (Num.Bit1 n) div 2 = (numeral n :: nat)"
    by simp
  then show "bit_length (numeral (Num.Bit1 n)) = Suc (bit_length (numeral n))"
    by (subst bit_length.simps) simp
qed

lemmas float_defs =
  float_of_int_def round32_def binade_def bit_length_numeral round_half_even_def pow2_def Let_def

lemma pow2_positive: "0 < pow2 e"
  by (simp add: pow2_def)

lemma round_half_even_nonneg: "0 \<le> x \<Longrightarrow> 0 \<le> round_half_even x"
  by (simp add: round_half_even_def Let_def)

lemma round32_nonneg:
  assumes "0 \<le> x" and "round32 x = Finite r"
  shows "0 \<le> r"
proof (cases "x = 0")
  case True
  then show ?thesis
    using assms(2) by (simp add: round32_def)
next
  case False
  define ulp where "ulp = pow2 (max (binade \<bar>x\<bar>) (- 126) - 23)"
  have ulp: "0 < ulp"
    by (simp add: ulp_def pow2_positive)
  have "0 \<le> round_half_even (\<bar>x\<bar> / ulp)"
    using ulp by (intro round_half_even_nonneg) simp
  then have "0 \<le> sgn x * (real_of_int (round_half_even (\<bar>x\<bar> / ulp)) * ulp)"
    using assms(1) ulp by (simp add: sgn_if)
  moreover have "r = sgn x * (real_of_int (round_half_even (\<bar>x\<bar> / ulp)) * ulp)"
    using assms(2) False by (simp add: round32_def Let_def ulp_def split: if_splits)
  ultimately show ?thesis
    by simp
qed

lemma c_times8_in_range:
  assumes "0 \<le> x" and "8 * x < 2 ^ 31"
  shows "c_times8 t x = Some (8 * x)"
proof (cases "promoted t")
  case (Signed w)
  then have "32 \<le> w"
    by (auto simp: promoted_def split: c_integer_type.splits if_splits)
  then have "(2::int) ^ 31 \<le> 2 ^ (w - 1)"
    by (intro power_increasing) simp_all
  then show ?thesis
    using assms Signed by (simp add: c_times8_def)
next
  case (Unsigned w)
  then have "32 \<le> w"
    by (auto simp: promoted_def split: c_integer_type.splits if_splits)
  then have "(2::int) ^ 31 \<le> 2 ^ w"
    by (intro power_increasing) simp_all
  then show ?thesis
    using assms Unsigned by (simp add: c_times8_def)
qed

text \<open>
  The last step of the report, \<open>x - x % 1000\<close>, rounds a bit rate that is not negative down
  to a multiple of 1000.
\<close>

lemma c_rem_rounds_down: "0 \<le> b \<Longrightarrow> b - c_rem b 1000 = 1000 * (b div 1000)"
  by (simp add: c_rem_def sgn_if minus_mod_eq_mult_div)

lemma report_eq:
  assumes "c_times8 (size_type e) (final_size e) = Some bits"
    and "float_div (float_of_int (pts s)) (float_of_int (sample_rate output_ctx)) = d"
    and "int_of_float (float_div (float_of_int bits) d) = Some rate"
  shows "report e output_ctx s mem =
           (True, mem\<lparr>p_dst_buf := \<lparr>buf = Some Dst_buf, buf_size = final_size e\<rparr>,
                      out_duration := d, out_bit_rate := rate - c_rem rate 1000\<rparr>)"
  using assms by (simp add: report_def Let_def)

text \<open>The report on 1250 bytes for 2304 samples and on 296751 bytes for 817920 samples.\<close>

lemma short_duration:
  "float_div (float_of_int 2304) (float_of_int 44100) = Finite (14024383 / 268435456)"
  by (simp add: float_defs)

lemma short_bit_rate:
  "int_of_float (float_div (float_of_int 10000) (Finite (14024383 / 268435456))) = Some 191406"
  by (simp add: float_defs)

lemma long_duration:
  "float_div (float_of_int 817920) (float_of_int 44100) = Finite (9723937 / 524288)"
  by (simp add: float_defs)

lemma long_bit_rate:
  "int_of_float (float_div (float_of_int 2374008) (Finite (9723937 / 524288))) = Some 128000"
  by (simp add: float_defs)

subsection \<open>Evaluating the concrete calls\<close>

lemmas concrete_defs =
  default_layout_def pcm_ctx_def fresh_ctx_def mp3_encoder_def opus_encoder_def no_args_def
  args_22050_def args_11025_def xyz_args_def good_input_def good_output_def frame_read_def eof_read_def packet_encode_def
  good_library_def unknown_format_library_def video_only_library_def two_stream_library_def
  fifo_failure_library_def write_failure_library_def long_library_def caller_memory0_def
  initial_state_def

lemmas setup_defs =
  open_input_stream_def open_output_stream_def open_output_stream_cleanup_def
  init_resampler_def init_fifo_def write_output_file_header_def write_output_file_trailer_def
  avformat_close_input_def cleanup_def emit_def emits_def
  set_encoder_params_def negotiate_layout_def negotiate_sample_fmt_def negotiate_sample_rate_def
  override_opus_and_bit_rate_def candidate_rate_def
  AVERROR_def AVERROR_EXIT_def AVERROR_EOF_def ENOMEM_def

lemmas result_defs = outcome_of_def memory_of_def trace_of_def

lemma int_cast_id: "- (2 ^ 31) \<le> x \<Longrightarrow> x < 2 ^ 31 \<Longrightarrow> int_cast x = x"
  unfolding int_cast_def
  by (simp add: sint_sbintrunc' signed_take_bit_int_eq_self)

lemma frame_read_fields:
  "input_frame_alloc_ok frame_read" "av_read_frame frame_read = 0"
  "avcodec_decode_audio4 frame_read = 2304" "decoded_data_present frame_read"
  "nb_samples frame_read = 1152" "swr_get_delay frame_read = 0" "calloc_ok frame_read"
  "av_samples_alloc frame_read = 4608" "swr_convert frame_read = 1152"
  "av_audio_fifo_realloc frame_read = 0" "av_audio_fifo_write frame_read = 1152"
  by (simp_all add: frame_read_def)

lemma desired_same_rate:
  assumes "sample_rate input_ctx = 44100" and "sample_rate output_ctx = 44100"
  shows "desired_nb_samples frame_read input_ctx output_ctx = 1152"
  using assms
  by (simp add: desired_nb_samples_def av_rescale_rnd_up_def int_cast_id frame_read_fields)

lemma read_frame_step:
  assumes "reads e (n_reads s) = frame_read"
  shows "read_decode_convert_and_store e input_ctx output_ctx False s =
           (Returned 0, False,
            s\<lparr>trace := trace s @
                   [SwrConvert (desired_nb_samples frame_read input_ctx output_ctx) 1152],
              fifo_size := fifo_size s + 1152, n_reads := Suc (n_reads s)\<rparr>)"
  using assms
  by (simp add: read_decode_convert_and_store_def decode_audio_frame_def
        init_converted_samples_def add_samples_to_fifo_def read_cleanup_def emit_def emits_def
        Let_def frame_read_fields AVERROR_EXIT_def)

lemma read_eof_step:
  assumes "reads e (n_reads s) = eof_read"
  shows "read_decode_convert_and_store e input_ctx output_ctx False s =
           (Returned 0, True, s\<lparr>n_reads := Suc (n_reads s)\<rparr>)"
  using assms
  by (simp add: read_decode_convert_and_store_def decode_audio_frame_def read_cleanup_def
        emit_def emits_def Let_def eof_read_def frame_read_def AVERROR_EXIT_def AVERROR_EOF_def)

lemma encode_packet_step:
  assumes "encodes e (n_encodes s) = a" and "avcodec_encode_audio2 a = 0" and "got_packet a"
    and "av_write_frame a = 0"
  shows "encode_audio_frame e frame s =
           (0, True,
            s\<lparr>trace := trace s @
                   [Encoded (case frame of None \<Rightarrow> None | Some n \<Rightarrow> Some (pts s, n))
                      (case frame of None \<Rightarrow> pts s | Some n \<Rightarrow> pts s + n) True],
              pts := (case frame of None \<Rightarrow> pts s | Some n \<Rightarrow> pts s + n),
              n_encodes := Suc (n_encodes s)\<rparr>)"
  using assms by (cases frame) (simp_all add: encode_audio_frame_def emit_def Let_def)

lemma encode_nothing_step:
  assumes "encodes e (n_encodes s) = a" and "avcodec_encode_audio2 a = 0" and "\<not> got_packet a"
  shows "encode_audio_frame e None s =
           (0, False, s\<lparr>trace := trace s @ [Encoded None (pts s) False],
                          n_encodes := Suc (n_encodes s)\<rparr>)"
  using assms by (simp add: encode_audio_frame_def emit_def Let_def)

lemma encode_write_failure_step:
  assumes "encodes e (n_encodes s) = a" and "avcodec_encode_audio2 a = 0" and "got_packet a"
    and "av_write_frame a < 0"
  shows "fst (encode_audio_frame e frame s) \<noteq> 0"
  using assms by (cases frame) (simp_all add: encode_audio_frame_def emit_def Let_def)

lemma load_step:
  assumes "encodes e (n_encodes s) = a" and "output_frame_alloc_ok a" and "av_frame_get_buffer a = 0"
    and "av_audio_fifo_read a = 1152" and "frame_size output_ctx = 1152" and "fifo_size s = 1152"
  shows "load_encode_and_write e output_ctx s =
           (case encode_audio_frame e (Some 1152) (s\<lparr>fifo_size := 0\<rparr>) of
              (error, data_written, s') \<Rightarrow> if error \<noteq> 0 then (AVERROR_EXIT, s') else (0, s'))"
  using assms by (simp add: load_encode_and_write_def init_output_frame_def emits_def Let_def)

text \<open>The loops on these answers.\<close>

lemma packet_encode_fields:
  "output_frame_alloc_ok packet_encode" "av_frame_get_buffer packet_encode = 0"
  "av_audio_fifo_read packet_encode = 1152" "avcodec_encode_audio2 packet_encode = 0"
  "got_packet packet_encode" "av_write_frame packet_encode = 0"
  by (simp_all add: packet_encode_def)

lemma fill_frame:
  assumes "reads e (n_reads s) = frame_read"
    and "fifo_size s = 0" and "frame_size output_ctx = 1152"
    and "sample_rate input_ctx = 44100" and "sample_rate output_ctx = 44100"
  shows "fill_loop e input_ctx output_ctx (Suc (Suc k)) False s =
           Some (Falls_through, False, s\<lparr>trace := trace s @ [SwrConvert 1152 1152],
                                 fifo_size := 1152, n_reads := Suc (n_reads s)\<rparr>)"
  using assms by (simp add: read_frame_step desired_same_rate)

lemma fill_eof:
  assumes "reads e (n_reads s) = eof_read" and "fifo_size s = 0"
    and "frame_size output_ctx = 1152"
  shows "fill_loop e input_ctx output_ctx (Suc k) False s =
           Some (Falls_through, True, s\<lparr>n_reads := Suc (n_reads s)\<rparr>)"
  using assms by (simp add: read_eof_step)

lemma drain_chunk:
  assumes "encodes e (n_encodes s) = packet_encode" and "fifo_size s = 1152"
    and "frame_size output_ctx = 1152"
  shows "drain_loop e output_ctx False (Suc (Suc k)) s =
           Some (Falls_through, s\<lparr>trace := trace s @ [Encoded (Some (pts s, 1152)) (pts s + 1152) True],
                          fifo_size := 0, pts := pts s + 1152,
                          n_encodes := Suc (n_encodes s)\<rparr>)"
  using assms
  by (simp add: load_step [where a = packet_encode] encode_packet_step [where a = packet_encode]
        packet_encode_fields)

lemma drain_nothing:
  assumes "fifo_size s = 0" and "frame_size output_ctx = 1152"
  shows "drain_loop e output_ctx finished (Suc k) s = Some (Falls_through, s)"
  using assms by simp

lemma flush_two_packets:
  assumes "encodes e (n_encodes s) = packet_encode"
    and "encodes e (Suc (n_encodes s)) = packet_encode"
    and "encodes e (Suc (Suc (n_encodes s))) = packet_encode\<lparr>got_packet := False\<rparr>"
  shows "flush_loop e (Suc (Suc (Suc k))) s =
           Some (Falls_through, s\<lparr>trace := trace s @ [Encoded None (pts s) True, Encoded None (pts s) True,
                                               Encoded None (pts s) False],
                          n_encodes := Suc (Suc (Suc (n_encodes s)))\<rparr>)"
  using assms
  by (simp add: encode_packet_step [where a = packet_encode]
        encode_nothing_step [where a = "packet_encode\<lparr>got_packet := False\<rparr>"]
        packet_encode_fields)

text \<open>One round of \<open>while (1)\<close> that reads a frame and encodes it.\<close>

lemma main_loop_frame:
  assumes "reads e (n_reads s) = frame_read" and "encodes e (n_encodes s) = packet_encode"
    and "fifo_size s = 0" and "frame_size output_ctx = 1152"
    and "sample_rate input_ctx = 44100" and "sample_rate output_ctx = 44100"
  shows "main_loop e input_ctx output_ctx (Suc (Suc k)) (Suc j) s =
           main_loop e input_ctx output_ctx (Suc (Suc k)) j
             (s\<lparr>trace := trace s @
                   [SwrConvert 1152 1152, Encoded (Some (pts s, 1152)) (pts s + 1152) True],
               fifo_size := 0, pts := pts s + 1152, n_reads := Suc (n_reads s),
               n_encodes := Suc (n_encodes s)\<rparr>)"
proof -
  have "main_loop e input_ctx output_ctx (Suc (Suc k)) (Suc j) s =
      main_loop e input_ctx output_ctx (Suc (Suc k)) j
        (s\<lparr>trace := trace s @ [SwrConvert 1152 1152], fifo_size := 1152,
           n_reads := Suc (n_reads s),
           trace := (trace s @ [SwrConvert 1152 1152])
                      @ [Encoded (Some (pts s, 1152)) (pts s + 1152) True],
           fifo_size := 0, pts := pts s + 1152, n_encodes := Suc (n_encodes s)\<rparr>)"
    using assms by (simp add: fill_frame drain_chunk del: fill_loop.simps drain_loop.simps)
  also have "s\<lparr>trace := trace s @ [SwrConvert 1152 1152], fifo_size := 1152,
           n_reads := Suc (n_reads s),
           trace := (trace s @ [SwrConvert 1152 1152])
                      @ [Encoded (Some (pts s, 1152)) (pts s + 1152) True],
           fifo_size := 0, pts := pts s + 1152, n_encodes := Suc (n_encodes s)\<rparr> =
      s\<lparr>trace := trace s @
                   [SwrConvert 1152 1152, Encoded (Some (pts s, 1152)) (pts s + 1152) True],
               fifo_size := 0, pts := pts s + 1152, n_reads := Suc (n_reads s),
               n_encodes := Suc (n_encodes s)\<rparr>"
    by simp
  finally show ?thesis .
qed

text \<open>The last round: the end of the input, then the flush.\<close>

lemma main_loop_eof:
  assumes "reads e (n_reads s) = eof_read" and "fifo_size s = 0"
    and "frame_size output_ctx = 1152"
    and "encodes e (n_encodes s) = packet_encode"
    and "encodes e (Suc (n_encodes s)) = packet_encode"
    and "encodes e (Suc (Suc (n_encodes s))) = packet_encode\<lparr>got_packet := False\<rparr>"
  shows "main_loop e input_ctx output_ctx (Suc (Suc (Suc k))) (Suc j) s =
           Some (Falls_through,
             s\<lparr>trace := trace s @ [Encoded None (pts s) True, Encoded None (pts s) True,
                                     Encoded None (pts s) False],
               n_reads := Suc (n_reads s), n_encodes := Suc (Suc (Suc (n_encodes s)))\<rparr>)"
  using assms
  by (simp add: fill_eof drain_nothing flush_two_packets
        del: fill_loop.simps drain_loop.simps flush_loop.simps)

lemma good_reads:
  "reads good_library 0 = frame_read" "reads good_library (Suc 0) = frame_read"
  "reads good_library (Suc (Suc n)) = eof_read"
  by (simp_all add: good_library_def)

lemma good_encodes:
  "encodes good_library 0 = packet_encode" "encodes good_library (Suc 0) = packet_encode"
  "encodes good_library (Suc (Suc 0)) = packet_encode"
  "encodes good_library (Suc (Suc (Suc 0))) = packet_encode"
  "encodes good_library (Suc (Suc (Suc (Suc 0)))) = packet_encode\<lparr>got_packet := False\<rparr>"
  by (simp_all add: good_library_def)

lemma good_main_loop:
  assumes "n_reads s = 0" and "n_encodes s = 0" and "fifo_size s = 0"
    and "frame_size output_ctx = 1152"
    and "sample_rate input_ctx = 44100" and "sample_rate output_ctx = 44100"
  shows "main_loop good_library input_ctx output_ctx (Suc (Suc (Suc k))) (Suc (Suc (Suc j))) s =
           Some (Falls_through,
             s\<lparr>trace := trace s @
                   [SwrConvert 1152 1152, Encoded (Some (pts s, 1152)) (pts s + 1152) True,
                    SwrConvert 1152 1152,
                    Encoded (Some (pts s + 1152, 1152)) (pts s + 2304) True,
                    Encoded None (pts s + 2304) True, Encoded None (pts s + 2304) True,
                    Encoded None (pts s + 2304) False],
               fifo_size := 0, pts := pts s + 2304, n_reads := Suc (Suc (Suc 0)),
               n_encodes := Suc (Suc (Suc (Suc (Suc 0))))\<rparr>)"
  using assms
  by (simp add: main_loop_frame main_loop_eof good_reads good_encodes del: main_loop.simps)

text \<open>The set-up of a call on the mono source with the MP3 encoder.\<close>

lemma ready_ctx_fields:
  "sample_rate ready_input_ctx = 44100" "sample_rate ready_output_ctx = 44100"
  "frame_size ready_output_ctx = 1152"
  by (simp_all add: ready_input_ctx_def ready_output_ctx_def pcm_ctx_def)

lemma ready_state_fields:
  "n_reads ready_state = 0" "n_encodes ready_state = 0" "fifo_size ready_state = 0"
  "pts ready_state = 0" "fifo ready_state"
  by (simp_all add: ready_state_def)

lemma good_setup:
  assumes "on_input e = good_input" and "on_output e = good_output"
    and "av_get_default_channel_layout e = default_layout"
  shows "transcoding e fuel mem no_args 2348 =
           (case main_loop e ready_input_ctx ready_output_ctx fuel fuel ready_state of
              None \<Rightarrow> None
            | Some (Crash, s) \<Rightarrow> Some (Crashed, mem, s)
            | Some (Goto_cleanup, s) \<Rightarrow> Some (Returned (AVERROR AVERROR_EXIT), mem, cleanup s)
            | Some (Falls_through, s) \<Rightarrow>
                (case write_output_file_trailer e s of
                   (error, s) \<Rightarrow>
                     if error \<noteq> 0 then Some (Returned (AVERROR AVERROR_EXIT), mem, cleanup s)
                     else
                     (case report e ready_output_ctx s mem of
                        (False, mem) \<Rightarrow> Some (Crashed, mem, s)
                      | (True, mem) \<Rightarrow> Some (Returned 0, mem, cleanup s))))"
proof -
  have opened: "open_input_stream e initial_state =
      (Returned 0,
       \<lparr>trace = [Alloc Input_format_context, Alloc Input_bio, Alloc Input_codec_context],
        input_format_context = True, input_codec_context = Some ready_input_ctx,
        output_format_context = False, output_codec_context = None, resample_context = False,
        fifo = False, fifo_size = 0, pts = 0, dst_total = 0, n_reads = 0, n_encodes = 0\<rparr>)"
    by (simp add: open_input_stream_def assms good_input_def Let_def emit_def initial_state_def
          pcm_ctx_def default_layout_def ready_input_ctx_def)
  have encoder: "open_output_stream e no_args ready_input_ctx
      \<lparr>trace = [Alloc Input_format_context, Alloc Input_bio, Alloc Input_codec_context,
                Alloc Dst_bio, Alloc Dst_buf],
       input_format_context = True, input_codec_context = Some ready_input_ctx,
       output_format_context = False, output_codec_context = None, resample_context = False,
       fifo = False, fifo_size = 0, pts = 0, dst_total = 130, n_reads = 0, n_encodes = 0\<rparr> =
      (0,
       \<lparr>trace = [Alloc Input_format_context, Alloc Input_bio, Alloc Input_codec_context,
                 Alloc Dst_bio, Alloc Dst_buf, Alloc Output_format_context,
                 Alloc Output_codec_context],
        input_format_context = True, input_codec_context = Some ready_input_ctx,
        output_format_context = True, output_codec_context = Some ready_output_ctx,
        resample_context = False, fifo = False, fifo_size = 0, pts = 0, dst_total = 130,
        n_reads = 0, n_encodes = 0\<rparr>)"
    by (simp add: open_output_stream_def assms good_output_def Let_def emit_def emits_def
          ready_input_ctx_def ready_output_ctx_def
          set_encoder_params_def negotiate_layout_def negotiate_sample_fmt_def
          negotiate_sample_rate_def override_opus_and_bit_rate_def candidate_rate_def
          concrete_codec_defs)
  have args: "arg_bit_rate no_args = 0"
    by (simp add: no_args_def)
  show ?thesis
    by (simp add: transcoding_def opened encoder args assms good_output_def Let_def emit_def
          transcode_streams_def init_resampler_def init_fifo_def
          write_output_file_header_def ready_state_def
          del: main_loop.simps)
qed

lemma good_library_fields:
  "on_input good_library = good_input" "on_output good_library = good_output"
  "av_get_default_channel_layout good_library = default_layout"
  "av_write_trailer good_library = 0" "final_size good_library = 1250"
  "size_type good_library = Unsigned 64"
  by (simp_all add: good_library_def)

lemma good_report:
  assumes "pts s = 2304"
  shows "report good_library ready_output_ctx s caller_memory0 =
           (True, \<lparr>p_dst_buf = \<lparr>buf = Some Dst_buf, buf_size = 1250\<rparr>, out_bit_rate = 191000,
                   out_duration = Finite (14024383 / 268435456)\<rparr>)"
proof -
  have bits: "c_times8 (size_type good_library) (final_size good_library) = Some 10000"
    by (simp add: good_library_def c_times8_def promoted_def)
  have duration: "float_div (float_of_int (pts s)) (float_of_int (sample_rate ready_output_ctx)) =
      Finite (14024383 / 268435456)"
    by (simp add: assms ready_ctx_fields short_duration)
  show ?thesis
    using report_eq [OF bits duration short_bit_rate, of caller_memory0]
    by (simp add: caller_memory0_def good_library_fields c_rem_def)
qed

lemma good_run:
  "transcoding good_library 5 caller_memory0 no_args 2348 =
     Some (Returned 0,
           \<lparr>p_dst_buf = \<lparr>buf = Some Dst_buf, buf_size = 1250\<rparr>, out_bit_rate = 191000,
            out_duration = Finite (14024383 / 268435456)\<rparr>,
           cleanup
             (ready_state\<lparr>trace := trace ready_state @
                   [SwrConvert 1152 1152, Encoded (Some (0, 1152)) 1152 True,
                    SwrConvert 1152 1152, Encoded (Some (1152, 1152)) 2304 True,
                    Encoded None 2304 True, Encoded None 2304 True, Encoded None 2304 False],
               fifo_size := 0, pts := 2304, n_reads := Suc (Suc (Suc 0)),
               n_encodes := Suc (Suc (Suc (Suc (Suc 0))))\<rparr>))"
proof -
  have five: "(5::nat) = Suc (Suc (Suc (Suc (Suc 0))))" by simp
  show ?thesis
    unfolding five
    by (simp add: good_setup good_library_fields good_main_loop ready_ctx_fields
          ready_state_fields write_output_file_trailer_def good_report del: main_loop.simps)
qed

lemma good_run_trace:
  "trace_of (transcoding good_library 5 caller_memory0 no_args 2348) =
     [Alloc Input_format_context, Alloc Input_bio, Alloc Input_codec_context,
      Alloc Dst_bio, Alloc Dst_buf, Alloc Output_format_context,
      Alloc Output_codec_context, Alloc Resample_context, Alloc Fifo,
      SwrConvert 1152 1152, Encoded (Some (0, 1152)) 1152 True,
      SwrConvert 1152 1152, Encoded (Some (1152, 1152)) 2304 True,
      Encoded None 2304 True, Encoded None 2304 True, Encoded None 2304 False,
      Free Fifo, Free Resample_context, Free Output_codec_context,
      Free Output_format_context, Free Input_codec_context, Free Input_format_context]"
  by (simp add: good_run trace_of_def cleanup_def ready_state_def emit_def Let_def
        avformat_close_input_def)

lemma good_run_outcome:
  "outcome_of (transcoding good_library 5 caller_memory0 no_args 2348) = Some (Returned 0)"
  by (simp add: good_run outcome_of_def)

text \<open>The call on the source of 710 frames.\<close>

lemma main_loop_frames:
  assumes "\<And>i. i < n \<Longrightarrow> reads e (n_reads s + i) = frame_read"
    and "\<And>i. i < n \<Longrightarrow> encodes e (n_encodes s + i) = packet_encode"
    and "fifo_size s = 0" and "frame_size output_ctx = 1152"
    and "sample_rate input_ctx = 44100" and "sample_rate output_ctx = 44100"
  shows "\<exists>s'. main_loop e input_ctx output_ctx (Suc (Suc k)) (n + j) s =
                 main_loop e input_ctx output_ctx (Suc (Suc k)) j s'
               \<and> pts s' = pts s + 1152 * int n \<and> n_reads s' = n_reads s + n
               \<and> n_encodes s' = n_encodes s + n \<and> fifo_size s' = 0"
  using assms(1-3)
proof (induction n arbitrary: s)
  case 0
  show ?case
    by (rule exI [of _ s]) (simp add: "0.prems"(3) del: main_loop.simps)
next
  case (Suc n)
  let ?s1 = "s\<lparr>trace := trace s @
                   [SwrConvert 1152 1152, Encoded (Some (pts s, 1152)) (pts s + 1152) True],
               fifo_size := 0, pts := pts s + 1152, n_reads := Suc (n_reads s),
               n_encodes := Suc (n_encodes s)\<rparr>"
  have first: "reads e (n_reads s) = frame_read" "encodes e (n_encodes s) = packet_encode"
    using Suc.prems(1) [of 0] Suc.prems(2) [of 0] by simp_all
  have step: "main_loop e input_ctx output_ctx (Suc (Suc k)) (Suc (n + j)) s =
      main_loop e input_ctx output_ctx (Suc (Suc k)) (n + j) ?s1"
    by (rule main_loop_frame [OF first Suc.prems(3) assms(4-6)])
  have reads: "reads e (n_reads ?s1 + i) = frame_read" if "i < n" for i
    using Suc.prems(1) [of "Suc i"] that by simp
  have encodes: "encodes e (n_encodes ?s1 + i) = packet_encode" if "i < n" for i
    using Suc.prems(2) [of "Suc i"] that by simp
  have empty: "fifo_size ?s1 = 0"
    by simp
  obtain s' where s': "main_loop e input_ctx output_ctx (Suc (Suc k)) (n + j) ?s1 =
      main_loop e input_ctx output_ctx (Suc (Suc k)) j s'"
    "pts s' = pts ?s1 + 1152 * int n" "n_reads s' = n_reads ?s1 + n"
    "n_encodes s' = n_encodes ?s1 + n" "fifo_size s' = 0"
    using Suc.IH [OF reads encodes empty] by blast
  have "main_loop e input_ctx output_ctx (Suc (Suc k)) (Suc n + j) s =
      main_loop e input_ctx output_ctx (Suc (Suc k)) j s'"
    using step s'(1) by (simp only: add_Suc)
  moreover have "pts s' = pts s + 1152 * int (Suc n)"
    using s'(2) by simp
  moreover have "n_reads s' = n_reads s + Suc n" "n_encodes s' = n_encodes s + Suc n"
    using s'(3,4) by simp_all
  ultimately show ?case
    using s'(5) by blast
qed

lemma long_library_fields:
  "on_input long_library = good_input" "on_output long_library = good_output"
  "av_get_default_channel_layout long_library = default_layout"
  "av_write_trailer long_library = 0" "final_size long_library = 296751"
  "size_type long_library = Unsigned 64"
  "reads long_library n = (if n < 710 then frame_read else eof_read)"
  "encodes long_library n =
     (if n < 712 then packet_encode else packet_encode\<lparr>got_packet := False\<rparr>)"
  by (simp_all add: long_library_def good_library_def)

lemma long_main_loop:
  "\<exists>s'. main_loop long_library ready_input_ctx ready_output_ctx (Suc (Suc (Suc k)))
           (710 + Suc j) ready_state = Some (Falls_through, s')
         \<and> pts s' = 817920"
proof -
  obtain s1 where s1:
    "main_loop long_library ready_input_ctx ready_output_ctx (Suc (Suc (Suc k))) (710 + Suc j)
       ready_state =
     main_loop long_library ready_input_ctx ready_output_ctx (Suc (Suc (Suc k))) (Suc j) s1"
    "pts s1 = pts ready_state + 1152 * int 710" "n_reads s1 = n_reads ready_state + 710"
    "n_encodes s1 = n_encodes ready_state + 710" "fifo_size s1 = 0"
    using main_loop_frames [of 710 long_library ready_state ready_output_ctx ready_input_ctx
        "Suc k" "Suc j"]
    by (auto simp: long_library_fields ready_state_fields ready_ctx_fields
        simp del: main_loop.simps)
  have last:
    "main_loop long_library ready_input_ctx ready_output_ctx (Suc (Suc (Suc k))) (Suc j) s1 =
       Some (Falls_through,
         s1\<lparr>trace := trace s1 @ [Encoded None (pts s1) True, Encoded None (pts s1) True,
                                   Encoded None (pts s1) False],
            n_reads := Suc (n_reads s1), n_encodes := Suc (Suc (Suc (n_encodes s1)))\<rparr>)"
    by (rule main_loop_eof)
       (simp_all add: s1 long_library_fields ready_state_fields ready_ctx_fields)
  show ?thesis
    unfolding s1(1) last using s1(2) by (simp add: ready_state_fields del: main_loop.simps)
qed

lemma long_report:
  assumes "pts s = 817920"
  shows "report long_library ready_output_ctx s caller_memory0 =
           (True, \<lparr>p_dst_buf = \<lparr>buf = Some Dst_buf, buf_size = 296751\<rparr>, out_bit_rate = 128000,
                   out_duration = Finite (9723937 / 524288)\<rparr>)"
proof -
  have bits: "c_times8 (size_type long_library) (final_size long_library) = Some 2374008"
    by (simp add: long_library_fields c_times8_def promoted_def)
  have duration: "float_div (float_of_int (pts s)) (float_of_int (sample_rate ready_output_ctx)) =
      Finite (9723937 / 524288)"
    by (simp add: assms ready_ctx_fields long_duration)
  show ?thesis
    using report_eq [OF bits duration long_bit_rate, of caller_memory0]
    by (simp add: caller_memory0_def long_library_fields c_rem_def)
qed

lemma long_run:
  "\<exists>s'. transcoding long_library 711 caller_memory0 no_args 2348 =
           Some (Returned 0,
                 \<lparr>p_dst_buf = \<lparr>buf = Some Dst_buf, buf_size = 296751\<rparr>, out_bit_rate = 128000,
                  out_duration = Finite (9723937 / 524288)\<rparr>, s')"
proof -
  obtain s1 where s1:
    "main_loop long_library ready_input_ctx ready_output_ctx (Suc (Suc (Suc 708)))
       (710 + Suc 0) ready_state = Some (Falls_through, s1)"
    "pts s1 = 817920"
    using long_main_loop by blast
  have loop: "main_loop long_library ready_input_ctx ready_output_ctx 711 711 ready_state =
      Some (Falls_through, s1)"
    using s1(1) by (simp del: main_loop.simps)
  show ?thesis
    by (simp add: good_setup long_library_fields loop write_output_file_trailer_def
          long_report s1(2) del: main_loop.simps)
qed

text \<open>The call whose first packet cannot be written.\<close>

lemma write_failure_fields:
  "on_input write_failure_library = good_input" "on_output write_failure_library = good_output"
  "av_get_default_channel_layout write_failure_library = default_layout"
  "reads write_failure_library 0 = frame_read"
  "encodes write_failure_library n = packet_encode\<lparr>av_write_frame := - 5\<rparr>"
  by (simp_all add: write_failure_library_def good_library_def)

lemma load_write_failure:
  assumes "encodes e (n_encodes s) = a" and "output_frame_alloc_ok a"
    and "av_frame_get_buffer a = 0" and "min (fifo_size s) (frame_size output_ctx) \<le> av_audio_fifo_read a"
    and "avcodec_encode_audio2 a = 0" and "got_packet a" and "av_write_frame a < 0"
  shows "fst (load_encode_and_write e output_ctx s) \<noteq> 0"
  using assms
  by (simp add: load_encode_and_write_def init_output_frame_def encode_audio_frame_def emit_def
        emits_def Let_def AVERROR_EXIT_def)

lemma drain_loop_failure:
  assumes "frame_size output_ctx \<le> fifo_size s"
    and "fst (load_encode_and_write e output_ctx s) \<noteq> 0"
  shows "\<exists>s'. drain_loop e output_ctx finished (Suc k) s = Some (Goto_cleanup, s')"
  using assms by (cases "load_encode_and_write e output_ctx s") simp

lemma write_failure_main_loop:
  "\<exists>s'. main_loop write_failure_library ready_input_ctx ready_output_ctx (Suc (Suc k)) (Suc j)
           ready_state = Some (Goto_cleanup, s')"
proof -
  let ?a = "packet_encode\<lparr>av_write_frame := - 5\<rparr>"
  let ?s1 = "ready_state\<lparr>trace := trace ready_state @ [SwrConvert 1152 1152],
                          fifo_size := 1152, n_reads := Suc 0\<rparr>"
  have fill: "fill_loop write_failure_library ready_input_ctx ready_output_ctx (Suc (Suc k)) False
      ready_state = Some (Falls_through, False, ?s1)"
    by (simp add: fill_frame write_failure_fields ready_ctx_fields ready_state_fields
          del: fill_loop.simps)
  have load: "fst (load_encode_and_write write_failure_library ready_output_ctx ?s1) \<noteq> 0"
    by (rule load_write_failure [where a = ?a])
       (simp_all add: write_failure_fields packet_encode_def ready_ctx_fields)
  have "\<exists>s'. drain_loop write_failure_library ready_output_ctx False (Suc (Suc k)) ?s1 =
      Some (Goto_cleanup, s')"
    by (rule drain_loop_failure [OF _ load]) (simp add: ready_ctx_fields)
  then obtain s' where drain:
    "drain_loop write_failure_library ready_output_ctx False (Suc (Suc k)) ?s1 = Some (Goto_cleanup, s')"
    by blast
  show ?thesis
    using fill drain by (simp del: fill_loop.simps drain_loop.simps)
qed

lemma write_failure_run:
  "outcome_of (transcoding write_failure_library 5 caller_memory0 no_args 2348) =
     Some (Returned (AVERROR AVERROR_EXIT))"
proof -
  have five: "(5::nat) = Suc (Suc (Suc (Suc (Suc 0))))" by simp
  obtain s' where "main_loop write_failure_library ready_input_ctx ready_output_ctx
      (Suc (Suc (Suc (Suc (Suc 0))))) (Suc (Suc (Suc (Suc (Suc 0))))) ready_state = Some (Goto_cleanup, s')"
    using write_failure_main_loop by blast
  then show ?thesis
    unfolding five
    by (simp add: good_setup write_failure_fields outcome_of_def del: main_loop.simps)
qed

text \<open>The calls that fail while the streams are opened.\<close>

lemma unknown_format_run:
  "transcoding unknown_format_library 5 caller_memory0 xyz_args 2348 =
     Some (Returned (AVERROR AVERROR_EXIT), caller_memory0,
           initial_state\<lparr>trace :=
             [Alloc Input_format_context, Alloc Input_bio, Alloc Input_codec_context,
              Alloc Dst_bio, Alloc Dst_buf, Stderr ''Could not allocate output format context.'',
              Free Input_codec_context, Free Input_format_context],
             dst_total := 130\<rparr>)"
  by (simp add: transcoding_def concrete_defs setup_defs Let_def)

lemma video_only_run:
  "transcoding video_only_library 5 caller_memory0 no_args 2348 =
     Some (Returned (AVERROR AVERROR_EXIT), caller_memory0,
           initial_state\<lparr>trace :=
             [Alloc Input_format_context, Alloc Input_bio, Alloc Input_codec_context,
              Alloc Dst_bio, Alloc Dst_buf, Alloc Output_format_context,
              Alloc Output_codec_context, Stderr ''channel layout is not supported'',
              Free Output_codec_context, Free Output_format_context,
              Free Input_codec_context, Free Input_format_context],
             dst_total := 130\<rparr>)"
  by (simp add: transcoding_def concrete_defs setup_defs Let_def)

subsection \<open>init_fifo\<close>

lemma init_fifo_eq:
  "init_fifo (Some v) e s =
     (Returned 0,
      if av_audio_fifo_alloc_ok (on_output e) then emit (Alloc Fifo) (s\<lparr>fifo := True\<rparr>)
      else s\<lparr>fifo := False\<rparr>)"
  by (cases v) (simp add: init_fifo_def Let_def)

lemma error_codes_differ:
  "AVERROR AVERROR_EXIT \<noteq> 0" "AVERROR AVERROR_EXIT \<noteq> AVERROR ENOMEM" "AVERROR ENOMEM \<noteq> 0"
  "AVERROR_EXIT \<noteq> 0"
  by (simp_all add: AVERROR_def AVERROR_EXIT_def ENOMEM_def)

text \<open>
  C9. For every non-null out-parameter, \<open>init_fifo\<close> returns 0 and prints nothing, whether
  \<open>av_audio_fifo_alloc\<close> returned a FIFO or \<open>NULL\<close>; it only stores what was returned. So when
  the allocation fails, \<open>transcoding\<close> goes on: from the point where both streams are open it
  ends with the general failure code or dereferences the null FIFO, and never returns
  \<open>AVERROR(ENOMEM)\<close>.
\<close>

theorem init_fifo_never_fails:
  "fst (init_fifo (Some v) e s) = Returned 0
   \<and> fifo (snd (init_fifo (Some v) e s)) = av_audio_fifo_alloc_ok (on_output e)
   \<and> trace (snd (init_fifo (Some v) e s)) =
       trace s @ (if av_audio_fifo_alloc_ok (on_output e) then [Alloc Fifo] else [])
   \<and> (\<not> av_audio_fifo_alloc_ok (on_output e) \<longrightarrow>
        outcome_of (transcode_streams e fuel mem input_ctx output_ctx s)
          \<in> {Some Crashed, Some (Returned (AVERROR AVERROR_EXIT))}
        \<and> outcome_of (transcode_streams e fuel mem input_ctx output_ctx s)
            \<noteq> Some (Returned (AVERROR ENOMEM)))"
  by (auto simp: init_fifo_eq emit_def transcode_streams_def outcome_of_def error_codes_differ
        init_resampler_def write_output_file_header_def Let_def)

theorem init_fifo_never_fails_witness:
  "\<not> av_audio_fifo_alloc_ok (on_output fifo_failure_library)
   \<and> fst (init_fifo (Some Local_fifo) fifo_failure_library initial_state) = Returned 0
   \<and> fifo (snd (init_fifo (Some Local_fifo) fifo_failure_library initial_state)) = False
   \<and> trace (snd (init_fifo (Some Local_fifo) fifo_failure_library initial_state)) = []
   \<and> outcome_of (transcode_streams fifo_failure_library 5 caller_memory0 pcm_ctx pcm_ctx
        initial_state) \<noteq> Some (Returned (AVERROR ENOMEM))"
proof -
  have failed: "\<not> av_audio_fifo_alloc_ok (on_output fifo_failure_library)"
    by (simp add: fifo_failure_library_def good_library_def good_output_def)
  show ?thesis
    using init_fifo_never_fails [of Local_fifo fifo_failure_library initial_state 5
        caller_memory0 pcm_ctx pcm_ctx] failed
    by (simp add: initial_state_def)
qed

subsection \<open>The capacity offered to the resampler\<close>

lemma round_up_div:
  fixes c x :: int
  assumes "0 < c"
  shows "(x + (c - 1)) div c = - ((- x) div c)"
proof -
  define q where "q = x div c"
  define r where "r = x mod c"
  have x: "x = q * c + r" by (simp add: q_def r_def)
  have r: "0 \<le> r" "r < c" using assms by (simp_all add: r_def)
  have c: "c \<noteq> 0" using assms by simp
  show ?thesis
  proof (cases "r = 0")
    case True
    have "x + (c - 1) = (c - 1) + q * c" by (simp add: x True)
    then have "(x + (c - 1)) div c = q + (c - 1) div c" by (simp only: div_mult_self1 [OF c])
    moreover have "(c - 1) div c = 0" using assms by (simp add: div_pos_pos_trivial)
    ultimately have l: "(x + (c - 1)) div c = q" by simp
    have "- x = 0 + (- q) * c" by (simp add: x True)
    then have "(- x) div c = - q + 0 div c" by (simp only: div_mult_self1 [OF c])
    then show ?thesis using l by simp
  next
    case False
    have "x + (c - 1) = (r - 1) + (q + 1) * c" by (simp add: x algebra_simps)
    then have "(x + (c - 1)) div c = (q + 1) + (r - 1) div c" by (simp only: div_mult_self1 [OF c])
    moreover have "(r - 1) div c = 0" using assms r False by (simp add: div_pos_pos_trivial)
    ultimately have l: "(x + (c - 1)) div c = q + 1" by simp
    have "- x = (c - r) + (- (q + 1)) * c" by (simp add: x algebra_simps)
    then have "(- x) div c = - (q + 1) + (c - r) div c" by (simp only: div_mult_self1 [OF c])
    moreover have "(c - r) div c = 0" using assms r False by (simp add: div_pos_pos_trivial)
    ultimately show ?thesis using l by simp
  qed
qed

lemma av_rescale_rnd_up_ceiling:
  assumes "0 < c" "0 \<le> b"
  shows "av_rescale_rnd_up a b c = \<lceil>real_of_int (a * b) / real_of_int c\<rceil>"
proof -
  have "\<lceil>real_of_int (a * b) / real_of_int c\<rceil> = - ((- (a * b)) div c)"
    by (rule ceiling_divide_eq_div)
  moreover have "av_rescale_rnd_up a b c = - ((- (a * b)) div c)"
    using assms by (simp add: av_rescale_rnd_up_def round_up_div)
  ultimately show ?thesis by simp
qed

lemma desired_nb_samples_spec:
  assumes "0 < sample_rate input_ctx" "0 \<le> sample_rate output_ctx"
    and "- (2 ^ 31) \<le> spec_capacity (swr_get_delay r) (nb_samples r) (sample_rate output_ctx)
           (sample_rate input_ctx)"
    and "spec_capacity (swr_get_delay r) (nb_samples r) (sample_rate output_ctx)
           (sample_rate input_ctx) < 2 ^ 31"
  shows "desired_nb_samples r input_ctx output_ctx =
           spec_capacity (swr_get_delay r) (nb_samples r) (sample_rate output_ctx)
             (sample_rate input_ctx)"
  using assms unfolding desired_nb_samples_def spec_capacity_def
  by (simp only: av_rescale_rnd_up_ceiling int_cast_id)

lemma read_decode_convert_and_store_offers:
  "grows_by (\<lambda>ev. \<forall>c n. ev = SwrConvert c n \<longrightarrow>
        c = desired_nb_samples (reads e (n_reads s)) input_ctx output_ctx
        \<and> n = nb_samples (reads e (n_reads s)))
     (trace s)
     (trace (snd (snd (read_decode_convert_and_store e input_ctx output_ctx finished s))))"
  by (simp add: read_decode_convert_and_store_def Let_def emit_def emits_def
        add_samples_to_fifo_def init_converted_samples_def decode_audio_frame_def
        grows_by_append grows_by_refl
      split: prod.split)

text \<open>
  C4. For every decoded frame that \<open>read_decode_convert_and_store\<close> feeds to the resampler,
  the capacity offered to \<open>swr_convert\<close> is the capacity of the specification: the resampler's
  delay plus the frame's sample count, times the output rate over the input rate, rounded
  up. The input rate is positive, the output rate is not negative, and the capacity fits the
  \<open>int\<close> it is cast to.
\<close>

theorem resampler_capacity:
  assumes "0 < sample_rate input_ctx" and "0 \<le> sample_rate output_ctx"
    and "- (2 ^ 31) \<le> spec_capacity (swr_get_delay (reads e (n_reads s)))
           (nb_samples (reads e (n_reads s))) (sample_rate output_ctx) (sample_rate input_ctx)"
    and "spec_capacity (swr_get_delay (reads e (n_reads s)))
           (nb_samples (reads e (n_reads s))) (sample_rate output_ctx) (sample_rate input_ctx)
         < 2 ^ 31"
    and "SwrConvert c n \<in> set (new_events s
           (snd (snd (read_decode_convert_and_store e input_ctx output_ctx finished s))))"
  shows "n = nb_samples (reads e (n_reads s))
         \<and> c = spec_capacity (swr_get_delay (reads e (n_reads s))) n (sample_rate output_ctx)
                 (sample_rate input_ctx)"
  using grows_by_new_events [OF read_decode_convert_and_store_offers assms(5)]
    desired_nb_samples_spec [OF assms(1-4)]
  by simp

text \<open>
  A frame of 1152 samples at 44100 Hz for an output at 48000 Hz with nothing pending: 1254
  samples are offered, 1152 * 48000 / 44100 rounded up.
\<close>

theorem resampler_capacity_witness:
  "0 < sample_rate pcm_ctx \<and> 0 \<le> sample_rate (pcm_ctx\<lparr>sample_rate := 48000\<rparr>)
   \<and> spec_capacity 0 1152 48000 44100 = 1254
   \<and> SwrConvert 1254 1152 \<in> set (new_events initial_state
        (snd (snd (read_decode_convert_and_store good_library pcm_ctx
           (pcm_ctx\<lparr>sample_rate := 48000\<rparr>) False initial_state))))"
proof -
  have in_rate: "0 < sample_rate pcm_ctx" by (simp add: pcm_ctx_def)
  have out_rate: "0 \<le> sample_rate (pcm_ctx\<lparr>sample_rate := 48000\<rparr>)" by simp
  have answers: "reads good_library (n_reads initial_state) = frame_read"
    by (simp add: good_reads initial_state_def)
  have capacity: "spec_capacity 0 1152 48000 44100 = 1254"
    unfolding spec_capacity_def by (simp add: ceiling_divide_eq_div)
  have lower: "- (2 ^ 31) \<le> spec_capacity (swr_get_delay (reads good_library (n_reads initial_state)))
           (nb_samples (reads good_library (n_reads initial_state)))
           (sample_rate (pcm_ctx\<lparr>sample_rate := 48000\<rparr>)) (sample_rate pcm_ctx)"
    by (simp add: answers frame_read_def pcm_ctx_def capacity)
  have upper: "spec_capacity (swr_get_delay (reads good_library (n_reads initial_state)))
           (nb_samples (reads good_library (n_reads initial_state)))
           (sample_rate (pcm_ctx\<lparr>sample_rate := 48000\<rparr>)) (sample_rate pcm_ctx) < 2 ^ 31"
    by (simp add: answers frame_read_def pcm_ctx_def capacity)
  have desired: "desired_nb_samples frame_read pcm_ctx (pcm_ctx\<lparr>sample_rate := 48000\<rparr>) = 1254"
    using desired_nb_samples_spec [OF in_rate out_rate, of frame_read]
    by (simp add: frame_read_def pcm_ctx_def capacity)
  have offered: "SwrConvert 1254 1152 \<in> set (new_events initial_state
        (snd (snd (read_decode_convert_and_store good_library pcm_ctx
           (pcm_ctx\<lparr>sample_rate := 48000\<rparr>) False initial_state))))"
    by (simp add: read_frame_step [OF answers] new_events_def desired)
  show ?thesis
    using resampler_capacity [OF in_rate out_rate lower upper offered] in_rate out_rate
      capacity offered
    by simp
qed

subsection \<open>The stream count\<close>

lemma stream_count_open:
  assumes "avformat_alloc_context_ok (on_input e)" and "input_bio_malloc_ok (on_input e)"
    and "input_init_io_context_default (on_input e) = 0"
    and "0 \<le> avformat_open_input (on_input e)"
    and "0 \<le> avformat_find_stream_info (on_input e)"
    and "length (streams (on_input e)) \<noteq> 1"
  shows "open_input_stream e initial_state =
           (Returned AVERROR_EXIT,
            initial_state\<lparr>trace :=
              [Alloc Input_format_context, Alloc Input_bio,
               Stderr ''Expected one audio input stream, but found %d.'',
               Free Input_format_context]\<rparr>)"
proof (cases "streams (on_input e)")
  case Nil
  then show ?thesis
    using assms
    by (simp add: open_input_stream_def Let_def emit_def avformat_close_input_def
          initial_state_def)
next
  case (Cons p ps)
  then obtain q qs where "ps = q # qs" using assms(6) by (cases ps) simp_all
  then show ?thesis
    using assms Cons
    by (simp add: open_input_stream_def Let_def emit_def avformat_close_input_def
          initial_state_def)
qed

text \<open>
  C2, as the code has it. For every source whose container opens and holds a number of
  streams of any media type other than one, \<open>open_input_stream\<close> prints the stream-count
  message and returns \<open>AVERROR_EXIT\<close>; \<open>transcoding\<close> returns the non-zero
  \<open>AVERROR(AVERROR_EXIT)\<close>, leaves the caller's memory alone, and all it allocated is the
  input format context and its reader: no decoder, no destination buffer, no encoder.
\<close>

theorem stream_count_failure:
  assumes "avformat_alloc_context_ok (on_input e)" and "input_bio_malloc_ok (on_input e)"
    and "input_init_io_context_default (on_input e) = 0"
    and "0 \<le> avformat_open_input (on_input e)"
    and "0 \<le> avformat_find_stream_info (on_input e)"
    and "length (streams (on_input e)) \<noteq> 1"
  shows "fst (open_input_stream e initial_state) = Returned AVERROR_EXIT
         \<and> outcome_of (transcoding e fuel mem args src_size) =
             Some (Returned (AVERROR AVERROR_EXIT))
         \<and> AVERROR AVERROR_EXIT \<noteq> 0
         \<and> memory_of (transcoding e fuel mem args src_size) = Some mem
         \<and> trace_of (transcoding e fuel mem args src_size) =
             [Alloc Input_format_context, Alloc Input_bio,
              Stderr ''Expected one audio input stream, but found %d.'',
              Free Input_format_context]"
  unfolding transcoding_def stream_count_open [OF assms]
  by (simp add: result_defs error_codes_differ cleanup_def initial_state_def)

text \<open>A container with an audio stream and a video stream.\<close>

theorem stream_count_failure_witness:
  "avformat_alloc_context_ok (on_input two_stream_library)
   \<and> input_bio_malloc_ok (on_input two_stream_library)
   \<and> input_init_io_context_default (on_input two_stream_library) = 0
   \<and> 0 \<le> avformat_open_input (on_input two_stream_library)
   \<and> 0 \<le> avformat_find_stream_info (on_input two_stream_library)
   \<and> length (streams (on_input two_stream_library)) = 2
   \<and> outcome_of (transcoding two_stream_library 5 caller_memory0 no_args 2348) =
       Some (Returned (AVERROR AVERROR_EXIT))
   \<and> Alloc Dst_buf \<notin> set (trace_of (transcoding two_stream_library 5 caller_memory0 no_args 2348))
   \<and> Alloc Output_codec_context
       \<notin> set (trace_of (transcoding two_stream_library 5 caller_memory0 no_args 2348))"
proof -
  have opens: "avformat_alloc_context_ok (on_input two_stream_library)"
    "input_bio_malloc_ok (on_input two_stream_library)"
    "input_init_io_context_default (on_input two_stream_library) = 0"
    "0 \<le> avformat_open_input (on_input two_stream_library)"
    "0 \<le> avformat_find_stream_info (on_input two_stream_library)"
    by (simp_all add: two_stream_library_def good_library_def good_input_def)
  have two: "length (streams (on_input two_stream_library)) = 2"
    by (simp add: two_stream_library_def good_library_def good_input_def)
  then have count: "length (streams (on_input two_stream_library)) \<noteq> 1"
    by simp
  show ?thesis
    using stream_count_failure [OF opens count, of 5 caller_memory0 no_args 2348] opens two
    by simp
qed

text \<open>
  C2, as it is stated, fails on a container whose only stream is a video stream: it holds no
  audio stream, the stream-count check passes, and the call fails in the negotiation of the
  layout, after the destination buffer and the encoder context have been allocated.
\<close>

theorem audio_stream_count_counterexample:
  "audio_stream_count video_only_library = 0
   \<and> outcome_of (transcoding video_only_library 5 caller_memory0 no_args 2348) =
       Some (Returned (AVERROR AVERROR_EXIT))
   \<and> Stderr ''Expected one audio input stream, but found %d.''
       \<notin> set (trace_of (transcoding video_only_library 5 caller_memory0 no_args 2348))
   \<and> Alloc Dst_buf \<in> set (trace_of (transcoding video_only_library 5 caller_memory0 no_args 2348))
   \<and> Alloc Output_codec_context
       \<in> set (trace_of (transcoding video_only_library 5 caller_memory0 no_args 2348))"
proof -
  have count: "audio_stream_count video_only_library = 0"
    by (simp add: audio_stream_count_def video_only_library_def good_library_def good_input_def)
  show ?thesis
    by (simp add: video_only_run result_defs count)
qed

subsection \<open>The caller's memory and the destination buffer\<close>

lemma transcode_streams_memory:
  "transcode_streams e fuel mem input_ctx output_ctx s = Some (Returned r, mem', s')
     \<Longrightarrow> r \<noteq> 0 \<Longrightarrow> mem' = mem"
  by (auto simp: transcode_streams_def init_fifo_eq
      split: prod.splits if_splits option.splits bool.splits exit.splits)

lemma transcoding_memory:
  "transcoding e fuel mem args src_size = Some (Returned r, mem', s') \<Longrightarrow> r \<noteq> 0 \<Longrightarrow> mem' = mem"
  by (auto simp: transcoding_def Let_def
      split: prod.splits if_splits option.splits outcome.splits
      dest: transcode_streams_memory)

text \<open>
  C10. Whenever \<open>transcoding\<close> returns a non-zero code, the three cells behind its
  out-parameters hold what they held at entry.
\<close>

theorem failure_keeps_out_parameters:
  assumes "transcoding e fuel mem args src_size = Some (Returned r, mem', s')" and "r \<noteq> 0"
  shows "p_dst_buf mem' = p_dst_buf mem \<and> out_bit_rate mem' = out_bit_rate mem
         \<and> out_duration mem' = out_duration mem"
  using transcoding_memory [OF assms] by simp

text \<open>The call whose first packet cannot be written fails inside the loop.\<close>

theorem failure_keeps_out_parameters_witness:
  "AVERROR AVERROR_EXIT \<noteq> 0
   \<and> outcome_of (transcoding write_failure_library 5 caller_memory0 no_args 2348) =
       Some (Returned (AVERROR AVERROR_EXIT))
   \<and> memory_of (transcoding write_failure_library 5 caller_memory0 no_args 2348) =
       Some caller_memory0"
proof -
  obtain mem' s' where run: "transcoding write_failure_library 5 caller_memory0 no_args 2348 =
      Some (Returned (AVERROR AVERROR_EXIT), mem', s')"
    using write_failure_run by (auto simp: outcome_of_def split: option.splits)
  have code: "AVERROR AVERROR_EXIT \<noteq> 0"
    by (rule error_codes_differ)
  have "p_dst_buf mem' = p_dst_buf caller_memory0 \<and> out_bit_rate mem' = out_bit_rate caller_memory0
      \<and> out_duration mem' = out_duration caller_memory0"
    by (rule failure_keeps_out_parameters [OF run code])
  then have "mem' = caller_memory0"
    by simp
  then show ?thesis
    using code run by (simp add: result_defs)
qed

text \<open>
  C1 on the call with an unknown output format: \<open>transcoding\<close> returns a non-zero code and
  leaves the caller's memory alone, but the destination buffer it allocated is not freed.
\<close>

theorem destination_buffer_not_freed:
  "outcome_of (transcoding unknown_format_library 5 caller_memory0 xyz_args 2348) =
     Some (Returned (AVERROR AVERROR_EXIT))
   \<and> AVERROR AVERROR_EXIT \<noteq> 0
   \<and> memory_of (transcoding unknown_format_library 5 caller_memory0 xyz_args 2348) =
       Some caller_memory0
   \<and> Alloc Dst_buf
       \<in> set (trace_of (transcoding unknown_format_library 5 caller_memory0 xyz_args 2348))
   \<and> Free Dst_buf
       \<notin> set (trace_of (transcoding unknown_format_library 5 caller_memory0 xyz_args 2348))"
  by (simp add: unknown_format_run result_defs error_codes_differ)

subsection \<open>The reported bit rate\<close>

lemma transcode_streams_success:
  "transcode_streams e fuel mem input_ctx output_ctx s = Some (Returned 0, mem', s')
     \<Longrightarrow> \<exists>t. report e output_ctx t mem = (True, mem')"
  by (auto simp: transcode_streams_def init_fifo_eq error_codes_differ
      split: prod.splits if_splits option.splits bool.splits exit.splits)

lemma transcoding_success:
  assumes "transcoding e fuel mem args src_size = Some (Returned 0, mem', s')"
  shows "\<exists>output_ctx t. report e output_ctx t mem = (True, mem')"
proof -
  obtain input_ctx output_ctx s where
    "transcode_streams e fuel mem input_ctx output_ctx s = Some (Returned 0, mem', s')"
    using assms
    by (auto simp: transcoding_def Let_def error_codes_differ
        split: prod.splits if_splits option.splits outcome.splits)
  then show ?thesis
    using transcode_streams_success by blast
qed

lemma report_bit_rate:
  assumes "report e output_ctx s mem = (True, mem')"
    and "out_duration mem' = Finite d" and "0 < d"
    and "0 \<le> buf_size (p_dst_buf mem')" and "8 * buf_size (p_dst_buf mem') < 2 ^ 31"
  shows "buf_size (p_dst_buf mem') = final_size e
         \<and> out_bit_rate mem' = float_bit_rate (final_size e) d"
proof -
  let ?D = "float_div (float_of_int (pts s)) (float_of_int (sample_rate output_ctx))"
  have size: "buf_size (p_dst_buf mem') = final_size e" and duration: "out_duration mem' = ?D"
    using assms(1) by (auto simp: report_def Let_def split: option.splits)
  have bits: "c_times8 (size_type e) (final_size e) = Some (8 * final_size e)"
    using c_times8_in_range assms(4,5) size by simp
  obtain rate where rate: "int_of_float (float_div (float_of_int (8 * final_size e)) ?D) = Some rate"
    and reported: "out_bit_rate mem' = rate - c_rem rate 1000"
    using assms(1) by (auto simp: report_def Let_def bits split: option.splits)
  have D: "?D = Finite d"
    using duration assms(2) by simp
  obtain a where a: "round32 (real_of_int (8 * final_size e)) = Finite a"
    using rate D
    by (cases "round32 (real_of_int (8 * final_size e))") (simp_all add: float_of_int_def)
  have "0 \<le> real_of_int (8 * final_size e)"
    using assms(4) size by simp
  then have a0: "0 \<le> a"
    using a by (rule round32_nonneg)
  obtain q where q: "round32 (a / d) = Finite q"
    using rate D a assms(3) by (cases "round32 (a / d)") (simp_all add: float_of_int_def)
  have "0 \<le> a / d"
    using a0 assms(3) by simp
  then have q0: "0 \<le> q"
    using q by (rule round32_nonneg)
  have "rate = \<lfloor>q\<rfloor>"
    using rate D a q q0 assms(3) by (simp add: float_of_int_def Let_def split: if_splits)
  moreover have "0 \<le> \<lfloor>q\<rfloor>"
    using q0 by simp
  ultimately have "out_bit_rate mem' = 1000 * (\<lfloor>q\<rfloor> div 1000)"
    using reported c_rem_rounds_down by simp
  moreover have "float_bit_rate (final_size e) d = 1000 * (\<lfloor>q\<rfloor> div 1000)"
    using a q by (simp add: float_bit_rate_def binary32_def)
  ultimately show ?thesis
    using size by simp
qed

text \<open>
  C8, as it is stated, fails on the source of 710 frames. The call succeeds and reports the
  duration \<open>9723937 / 524288\<close> seconds, the \<open>float\<close> nearest to 817920 / 44100, and the size
  296751. Eight times the size over that duration is a little less than 128000, so its floor
  is 127999 and the specification's bit rate 127000, for the reported duration as for the
  exact one; the code divides in \<open>float\<close>, the quotient is rounded up to 128000, and that is
  what it reports.
\<close>

theorem exact_bit_rate_counterexample:
  "outcome_of (transcoding long_library 711 caller_memory0 no_args 2348) = Some (Returned 0)
   \<and> memory_of (transcoding long_library 711 caller_memory0 no_args 2348) =
       Some \<lparr>p_dst_buf = \<lparr>buf = Some Dst_buf, buf_size = 296751\<rparr>, out_bit_rate = 128000,
             out_duration = Finite (9723937 / 524288)\<rparr>
   \<and> spec_bit_rate 296751 (9723937 / 524288) = 127000
   \<and> spec_bit_rate 296751 (817920 / 44100) = 127000"
proof -
  obtain s' where "transcoding long_library 711 caller_memory0 no_args 2348 =
      Some (Returned 0,
            \<lparr>p_dst_buf = \<lparr>buf = Some Dst_buf, buf_size = 296751\<rparr>, out_bit_rate = 128000,
             out_duration = Finite (9723937 / 524288)\<rparr>, s')"
    using long_run by blast
  then show ?thesis
    by (simp add: result_defs spec_bit_rate_def)
qed

text \<open>
  C8, as the code has it. On every successful call that reports a positive duration and a
  size whose eightfold is below \<open>2 ^ 31\<close>, the size reported is the final size of the output
  and the bit rate reported is the quotient of eight times that size by the reported
  duration, computed in \<open>float\<close>: the number of bits is rounded to binary32, the quotient is
  rounded to binary32, and the result is rounded down to an integer and then down to a
  multiple of 1000.
\<close>

theorem reported_bit_rate:
  assumes "transcoding e fuel mem args src_size = Some (Returned 0, mem', s')"
    and "out_duration mem' = Finite d" and "0 < d"
    and "0 \<le> buf_size (p_dst_buf mem')" and "8 * buf_size (p_dst_buf mem') < 2 ^ 31"
  shows "buf_size (p_dst_buf mem') = final_size e
         \<and> out_bit_rate mem' = float_bit_rate (final_size e) d"
proof -
  obtain output_ctx t where "report e output_ctx t mem = (True, mem')"
    using transcoding_success [OF assms(1)] by blast
  then show ?thesis
    using assms(2-5) by (rule report_bit_rate)
qed

text \<open>
  The source of two frames: 1250 bytes for 2304 samples, 191406.25 bits per second after
  the two roundings, reported as 191000.
\<close>

theorem reported_bit_rate_witness:
  "outcome_of (transcoding good_library 5 caller_memory0 no_args 2348) = Some (Returned 0)
   \<and> memory_of (transcoding good_library 5 caller_memory0 no_args 2348) =
       Some \<lparr>p_dst_buf = \<lparr>buf = Some Dst_buf, buf_size = 1250\<rparr>, out_bit_rate = 191000,
             out_duration = Finite (14024383 / 268435456)\<rparr>
   \<and> (0::real) < 14024383 / 268435456 \<and> (8::int) * 1250 < 2 ^ 31
   \<and> final_size good_library = 1250
   \<and> float_bit_rate (final_size good_library) (14024383 / 268435456) = 191000"
proof -
  have "buf_size (p_dst_buf \<lparr>p_dst_buf = \<lparr>buf = Some Dst_buf, buf_size = 1250\<rparr>,
            out_bit_rate = 191000, out_duration = Finite (14024383 / 268435456)\<rparr>) =
          final_size good_library
      \<and> out_bit_rate \<lparr>p_dst_buf = \<lparr>buf = Some Dst_buf, buf_size = 1250\<rparr>,
            out_bit_rate = 191000, out_duration = Finite (14024383 / 268435456)\<rparr> =
          float_bit_rate (final_size good_library) (14024383 / 268435456)"
    by (rule reported_bit_rate [OF good_run]) simp_all
  then have "out_bit_rate \<lparr>p_dst_buf = \<lparr>buf = Some Dst_buf, buf_size = 1250\<rparr>,
            out_bit_rate = 191000, out_duration = Finite (14024383 / 268435456)\<rparr> =
          float_bit_rate (final_size good_library) (14024383 / 268435456)"
    by (rule conjunct2)
  then have "float_bit_rate (final_size good_library) (14024383 / 268435456) = 191000"
    by simp
  then show ?thesis
    by (simp add: good_run result_defs good_library_fields)
qed

subsection \<open>The presentation-time accumulator\<close>

lemma stamps_chained_append:
  "stamps_chained a (xs @ ys) \<longleftrightarrow>
     stamps_chained a xs \<and> stamps_chained (last_accumulator a xs) ys"
  by (induction a xs rule: stamps_chained.induct) auto

lemma last_accumulator_append:
  "last_accumulator a (xs @ ys) = last_accumulator (last_accumulator a xs) ys"
  by (induction a xs rule: last_accumulator.induct) auto

lemma unstamped_events:
  "\<forall>ev \<in> set evs. \<not> is_stamp ev \<Longrightarrow> stamps_chained a evs \<and> last_accumulator a evs = a"
proof (induction evs)
  case Nil
  then show ?case by simp
next
  case (Cons ev evs)
  then show ?case by (cases ev) simp_all
qed

lemma unstamped_growth:
  assumes "grows_by (\<lambda>ev. \<not> is_stamp ev) t t'"
  shows "stamps_chained a t' = stamps_chained a t" and "last_accumulator a t' = last_accumulator a t"
proof -
  obtain evs where evs: "t' = t @ evs" "\<forall>ev \<in> set evs. \<not> is_stamp ev"
    using assms by (auto simp: grows_by_def)
  show "stamps_chained a t' = stamps_chained a t"
    using unstamped_events [OF evs(2)] by (simp add: evs(1) stamps_chained_append)
  show "last_accumulator a t' = last_accumulator a t"
    using unstamped_events [OF evs(2)] by (simp add: evs(1) last_accumulator_append)
qed

lemma stamps_follow_kept:
  assumes "grows_by (\<lambda>ev. \<not> is_stamp ev) (trace s) (trace s')" and "pts s' = pts s"
    and "stamps_follow s"
  shows "stamps_follow s'"
  using assms by (simp add: stamps_follow_def unstamped_growth)

lemma stamps_chained_kept:
  assumes "grows_by (\<lambda>ev. \<not> is_stamp ev) (trace s) (trace s')"
    and "stamps_chained 0 (trace s)"
  shows "stamps_chained 0 (trace s')"
  using assms by (simp add: unstamped_growth)

text \<open>The functions that stamp nothing.\<close>

lemma open_input_stream_unstamped:
  "grows_by (\<lambda>ev. \<not> is_stamp ev) (trace s) (trace (snd (open_input_stream e s)))
   \<and> pts (snd (open_input_stream e s)) = pts s"
  by (simp add: open_input_stream_def Let_def emit_def avformat_close_input_def
        grows_by_append grows_by_refl
      split: list.split)

lemma set_encoder_params_unstamped:
  "\<forall>ev \<in> set (snd (snd (set_encoder_params L args ectx enc ictx))). \<not> is_stamp ev"
  using negotiate_sample_rate_prints
    [of args "fst (negotiate_sample_fmt (snd (negotiate_layout L ectx enc ictx)) enc ictx)"
        enc ictx]
  by (auto simp: set_encoder_params_eq negotiate_sample_fmt_def split: option.split)

lemma open_output_stream_unstamped:
  "grows_by (\<lambda>ev. \<not> is_stamp ev) (trace s) (trace (snd (open_output_stream e args ictx s)))
   \<and> pts (snd (open_output_stream e args ictx s)) = pts s"
proof -
  obtain error avctx printed where p:
    "set_encoder_params (av_get_default_channel_layout e) args
       (case encoder_alloc_context3 (on_output e) of Some c \<Rightarrow> c)
       (case avcodec_find_encoder (on_output e) of Some c \<Rightarrow> c) ictx = (error, avctx, printed)"
    by (metis prod_cases3)
  have "\<forall>ev \<in> set printed. \<not> is_stamp ev"
    using set_encoder_params_unstamped [of "av_get_default_channel_layout e" args
        "case encoder_alloc_context3 (on_output e) of Some c \<Rightarrow> c"
        "case avcodec_find_encoder (on_output e) of Some c \<Rightarrow> c" ictx]
    by (simp add: p)
  then show ?thesis
    using p
    by (auto simp: open_output_stream_def open_output_stream_cleanup_def Let_def emit_def
          emits_def grows_by_append grows_by_refl split: option.split)
qed

lemma init_resampler_unstamped:
  "grows_by (\<lambda>ev. \<not> is_stamp ev) (trace s) (trace (snd (init_resampler e s)))
   \<and> pts (snd (init_resampler e s)) = pts s"
  by (simp add: init_resampler_def Let_def emit_def grows_by_append grows_by_refl)

lemma init_fifo_unstamped:
  "grows_by (\<lambda>ev. \<not> is_stamp ev) (trace s) (trace (snd (init_fifo (Some v) e s)))
   \<and> pts (snd (init_fifo (Some v) e s)) = pts s"
  by (simp add: init_fifo_eq emit_def grows_by_append grows_by_refl)

lemma write_output_file_header_unstamped:
  "grows_by (\<lambda>ev. \<not> is_stamp ev) (trace s) (trace (snd (write_output_file_header e s)))
   \<and> pts (snd (write_output_file_header e s)) = pts s"
  by (simp add: write_output_file_header_def emit_def grows_by_append grows_by_refl)

lemma write_output_file_trailer_unstamped:
  "grows_by (\<lambda>ev. \<not> is_stamp ev) (trace s) (trace (snd (write_output_file_trailer e s)))"
  by (simp add: write_output_file_trailer_def emit_def grows_by_append grows_by_refl)

lemma cleanup_unstamped:
  "grows_by (\<lambda>ev. \<not> is_stamp ev) (trace s) (trace (cleanup s))"
  by (simp add: cleanup_def Let_def emit_def avformat_close_input_def grows_by_append
        grows_by_refl
      split: option.split)

lemma read_decode_convert_and_store_unstamped:
  "grows_by (\<lambda>ev. \<not> is_stamp ev) (trace s)
     (trace (snd (snd (read_decode_convert_and_store e input_ctx output_ctx finished s))))
   \<and> pts (snd (snd (read_decode_convert_and_store e input_ctx output_ctx finished s))) = pts s"
  by (simp add: read_decode_convert_and_store_def Let_def emit_def emits_def
        add_samples_to_fifo_def init_converted_samples_def decode_audio_frame_def
        grows_by_append grows_by_refl
      split: prod.split)

text \<open>The functions that stamp.\<close>

lemma encode_audio_frame_stamps:
  assumes "stamps_follow s" and "\<forall>n. frame = Some n \<longrightarrow> 0 < n"
  shows "stamps_chained 0 (trace (snd (snd (encode_audio_frame e frame s))))
         \<and> (fst (encode_audio_frame e frame s) = 0 \<longrightarrow>
              stamps_follow (snd (snd (encode_audio_frame e frame s))))"
  using assms
  by (cases frame)
     (simp_all add: encode_audio_frame_def Let_def emit_def stamps_follow_def
        stamps_chained_append last_accumulator_append)

lemma load_encode_and_write_stamps:
  assumes "stamps_follow s" and "0 < min (fifo_size s) (frame_size output_ctx)"
  shows "stamps_chained 0 (trace (snd (load_encode_and_write e output_ctx s)))
         \<and> (fst (load_encode_and_write e output_ctx s) = 0 \<longrightarrow>
              stamps_follow (snd (load_encode_and_write e output_ctx s)))"
proof -
  let ?n = "min (fifo_size s) (frame_size output_ctx)"
  let ?s = "s\<lparr>fifo_size := fifo_size s - ?n\<rparr>"
  have follow: "stamps_follow ?s"
    using assms(1) by (simp add: stamps_follow_def)
  have chained: "stamps_chained 0 (trace s)"
    using assms(1) by (simp add: stamps_follow_def)
  note inner = encode_audio_frame_stamps [OF follow, of "Some ?n" e]
  obtain error w s' where enc: "encode_audio_frame e (Some ?n) ?s = (error, w, s')"
    by (metis prod_cases3)
  show ?thesis
    using inner assms(2) chained
    by (simp add: load_encode_and_write_def init_output_frame_def Let_def emit_def emits_def enc
          stamps_chained_append error_codes_differ)
qed

lemma fill_loop_stamps:
  "stamps_follow s \<Longrightarrow> fill_loop e input_ctx output_ctx k finished s = Some (ex, finished', s')
     \<Longrightarrow> stamps_follow s'"
proof (induction k arbitrary: finished s)
  case 0
  then show ?case by simp
next
  case (Suc k)
  obtain oc fin s1 where r:
    "read_decode_convert_and_store e input_ctx output_ctx finished s = (oc, fin, s1)"
    by (metis prod_cases3)
  have s1: "stamps_follow s1"
    using read_decode_convert_and_store_unstamped [of s e input_ctx output_ctx finished]
      Suc.prems(1)
    by (auto simp: r intro: stamps_follow_kept)
  show ?case
    using Suc.prems Suc.IH [OF s1] s1 by (cases oc) (auto simp: r split: if_splits)
qed

lemma drain_loop_stamps:
  "stamps_follow s \<Longrightarrow> 0 < frame_size output_ctx
     \<Longrightarrow> drain_loop e output_ctx finished k s = Some (ex, s')
     \<Longrightarrow> stamps_chained 0 (trace s') \<and> (ex = Falls_through \<longrightarrow> stamps_follow s')"
proof (induction k arbitrary: s)
  case 0
  then show ?case by simp
next
  case (Suc k)
  show ?case
  proof (cases "frame_size output_ctx \<le> fifo_size s \<or> (finished \<and> 0 < fifo_size s)")
    case False
    then show ?thesis
      using Suc.prems by (auto simp: stamps_follow_def)
  next
    case True
    then have positive: "0 < min (fifo_size s) (frame_size output_ctx)"
      using Suc.prems(2) by auto
    obtain error s1 where l: "load_encode_and_write e output_ctx s = (error, s1)"
      by (metis surj_pair)
    note step = load_encode_and_write_stamps [OF Suc.prems(1) positive, of e]
    show ?thesis
    proof (cases "error = 0")
      case True
      then have "stamps_follow s1" using step by (simp add: l)
      then show ?thesis
        using Suc.IH [of s1] Suc.prems(2,3) \<open>frame_size output_ctx \<le> fifo_size s \<or> _\<close> True
        by (auto simp: l)
    next
      case False
      then show ?thesis
        using step Suc.prems(3) \<open>frame_size output_ctx \<le> fifo_size s \<or> _\<close>
        by (auto simp: l)
    qed
  qed
qed

lemma flush_loop_stamps:
  "stamps_follow s \<Longrightarrow> flush_loop e k s = Some (ex, s')
     \<Longrightarrow> stamps_chained 0 (trace s') \<and> (ex = Falls_through \<longrightarrow> stamps_follow s')"
proof (induction k arbitrary: s)
  case 0
  then show ?case by simp
next
  case (Suc k)
  obtain error w s1 where enc: "encode_audio_frame e None s = (error, w, s1)"
    by (metis prod_cases3)
  note step = encode_audio_frame_stamps [OF Suc.prems(1), of None e]
  show ?case
  proof (cases "error = 0")
    case True
    then have "stamps_follow s1" using step by (simp add: enc)
    then show ?thesis
      using Suc.IH [of s1] Suc.prems(2) True by (auto simp: enc stamps_follow_def split: if_splits)
  next
    case False
    then show ?thesis
      using step Suc.prems(2) by (auto simp: enc)
  qed
qed

lemma main_loop_stamps:
  "stamps_follow s \<Longrightarrow> 0 < frame_size output_ctx
     \<Longrightarrow> main_loop e input_ctx output_ctx fuel k s = Some (ex, s')
     \<Longrightarrow> stamps_chained 0 (trace s') \<and> (ex = Falls_through \<longrightarrow> stamps_follow s')"
proof (induction k arbitrary: s)
  case 0
  then show ?case by simp
next
  case (Suc k)
  from Suc.prems(3) obtain ex1 finished s1 where
    fill: "fill_loop e input_ctx output_ctx fuel False s = Some (ex1, finished, s1)"
    by (auto split: option.splits)
  have s1: "stamps_follow s1"
    by (rule fill_loop_stamps [OF Suc.prems(1) fill])
  show ?case
  proof (cases "ex1 = Falls_through")
    case False
    then show ?thesis
      using Suc.prems(3) s1 by (cases ex1) (auto simp: fill stamps_follow_def)
  next
    case True
    from Suc.prems(3) True obtain ex2 s2 where
      drain: "drain_loop e output_ctx finished fuel s1 = Some (ex2, s2)"
      by (auto simp: fill split: option.splits)
    note s2 = drain_loop_stamps [OF s1 Suc.prems(2) drain]
    show ?thesis
    proof (cases "ex2 = Falls_through")
      case False
      then show ?thesis
        using Suc.prems(3) True s2 by (cases ex2) (auto simp: fill drain)
    next
      case ex2: True
      then have follow: "stamps_follow s2" using s2 by simp
      show ?thesis
      proof (cases finished)
        case True
        then have "flush_loop e fuel s2 = Some (ex, s')"
          using Suc.prems(3) \<open>ex1 = Falls_through\<close> ex2 drain by (simp add: fill)
        then show ?thesis
          by (rule flush_loop_stamps [OF follow])
      next
        case False
        then have "main_loop e input_ctx output_ctx fuel k s2 = Some (ex, s')"
          using Suc.prems(3) \<open>ex1 = Falls_through\<close> ex2 drain by (simp add: fill)
        then show ?thesis
          by (rule Suc.IH [OF follow Suc.prems(2)])
      qed
    qed
  qed
qed

lemma open_output_stream_frame_size:
  "open_output_stream e args ictx s = (0, s') \<Longrightarrow> output_codec_context s' = Some output_ctx
     \<Longrightarrow> frame_size output_ctx = encoder_frame_size (on_output e)"
  by (auto simp: open_output_stream_def open_output_stream_cleanup_def Let_def AVERROR_EXIT_def
        AVERROR_def ENOMEM_def
      split: option.splits prod.splits if_splits)

lemma stamps_follow_initial: "stamps_follow initial_state"
  by (simp add: stamps_follow_def initial_state_def)

lemma transcode_streams_stamps:
  assumes "stamps_follow s" and "0 < frame_size output_ctx"
  shows "stamps_chained 0 (trace_of (transcode_streams e fuel mem input_ctx output_ctx s))"
proof -
  obtain r1 s1 where resampler: "init_resampler e s = (r1, s1)"
    by (metis surj_pair)
  have s1: "stamps_follow s1"
    using init_resampler_unstamped [of s e] assms(1)
    by (auto simp: resampler intro: stamps_follow_kept)
  obtain s2 where fifo: "init_fifo (Some Local_fifo) e s1 = (Returned 0, s2)"
    by (simp add: init_fifo_eq)
  have s2: "stamps_follow s2"
    using init_fifo_unstamped [of s1 Local_fifo e] s1
    by (auto simp: fifo intro: stamps_follow_kept)
  obtain r3 s3 where header: "write_output_file_header e s2 = (r3, s3)"
    by (metis surj_pair)
  have s3: "stamps_follow s3"
    using write_output_file_header_unstamped [of s2 e] s2
    by (auto simp: header intro: stamps_follow_kept)
  have after: "stamps_chained 0 (trace (cleanup t))" if "stamps_chained 0 (trace t)" for t
    using stamps_chained_kept [OF cleanup_unstamped that] .
  have follows: "stamps_chained 0 (trace t)" if "stamps_follow t" for t
    using that by (simp add: stamps_follow_def)
  show ?thesis
  proof (cases "r1 \<noteq> 0 \<or> r3 \<noteq> 0 \<or> \<not> fifo s3")
    case True
    then show ?thesis
      using after [OF follows [OF s1]] after [OF follows [OF s2]] after [OF follows [OF s3]]
        follows [OF s3]
      by (auto simp: transcode_streams_def resampler fifo header trace_of_def)
  next
    case False
    show ?thesis
    proof (cases "main_loop e input_ctx output_ctx fuel fuel s3")
      case None
      then show ?thesis
        using False by (simp add: transcode_streams_def resampler fifo header trace_of_def)
    next
      case (Some result)
      obtain ex s4 where result: "result = (ex, s4)"
        by (metis surj_pair)
      have loop: "main_loop e input_ctx output_ctx fuel fuel s3 = Some (ex, s4)"
        using Some result by simp
      note s4 = main_loop_stamps [OF s3 assms(2) loop]
      obtain r5 s5 where trailer: "write_output_file_trailer e s4 = (r5, s5)"
        by (metis surj_pair)
      have s5: "stamps_chained 0 (trace s5)"
        using stamps_chained_kept [OF write_output_file_trailer_unstamped, of s4 e] s4
        by (simp add: trailer)
      obtain defined mem' where reported: "report e output_ctx s5 mem = (defined, mem')"
        by (metis surj_pair)
      show ?thesis
      proof (cases ex)
        case Falls_through
        then show ?thesis
          using False after [OF s5] s5 after [of s4] s4
          by (cases defined)
             (simp_all add: transcode_streams_def resampler fifo header loop trailer reported
                trace_of_def)
      next
        case Goto_cleanup
        then show ?thesis
          using False s4 after [of s4]
          by (simp add: transcode_streams_def resampler fifo header loop trace_of_def)
      next
        case Crash
        then show ?thesis
          using False s4
          by (simp add: transcode_streams_def resampler fifo header loop trace_of_def)
      qed
    qed
  qed
qed

lemma after_open_output_stream_stamps:
  assumes "stamps_follow t" and "0 < encoder_frame_size (on_output e)"
  shows "stamps_chained 0
           (trace_of
              (case open_output_stream e args input_ctx t of
                 (error, s) \<Rightarrow>
                   if error \<noteq> 0 then Some (Returned (AVERROR AVERROR_EXIT), mem, cleanup s)
                   else
                   (case output_codec_context s of
                      None \<Rightarrow> Some (Crashed, mem, s)
                    | Some output_ctx \<Rightarrow>
                        transcode_streams e fuel mem input_ctx output_ctx s)))"
proof -
  obtain r2 s2 where encoder: "open_output_stream e args input_ctx t = (r2, s2)"
    by (metis surj_pair)
  have s2: "stamps_follow s2"
    using open_output_stream_unstamped [of t e args input_ctx] assms(1)
    by (auto simp: encoder intro: stamps_follow_kept)
  then have chained: "stamps_chained 0 (trace s2)"
    by (simp add: stamps_follow_def)
  have cleaned: "stamps_chained 0 (trace (cleanup s2))"
    using stamps_chained_kept [OF cleanup_unstamped chained] .
  show ?thesis
  proof (cases "r2 = 0")
    case False
    then show ?thesis
      using cleaned by (simp add: encoder trace_of_simps)
  next
    case True
    show ?thesis
    proof (cases "output_codec_context s2")
      case None
      then show ?thesis
        using True chained by (simp add: encoder trace_of_simps)
    next
      case (Some output_ctx)
      have "frame_size output_ctx = encoder_frame_size (on_output e)"
        using open_output_stream_frame_size [of e args input_ctx t s2 output_ctx] encoder
          True Some
        by simp
      then have "stamps_chained 0
          (trace_of (transcode_streams e fuel mem input_ctx output_ctx s2))"
        using transcode_streams_stamps [OF s2, of output_ctx] assms(2) by simp
      then show ?thesis
        using True Some by (simp add: encoder)
    qed
  qed
qed

lemma transcoding_stamps:
  assumes "0 < encoder_frame_size (on_output e)"
  shows "stamps_chained 0 (trace_of (transcoding e fuel mem args src_size))"
proof -
  obtain oc s1 where opened: "open_input_stream e initial_state = (oc, s1)"
    by (metis surj_pair)
  have s1: "stamps_follow s1"
    using open_input_stream_unstamped [of initial_state e] stamps_follow_initial
    by (auto simp: opened intro: stamps_follow_kept)
  have after: "stamps_chained 0 (trace (cleanup t))" if "stamps_follow t" for t
    using stamps_chained_kept [OF cleanup_unstamped, of t] that by (simp add: stamps_follow_def)
  have follows: "stamps_chained 0 (trace t)" if "stamps_follow t" for t
    using that by (simp add: stamps_follow_def)
  have bio: "stamps_follow (emit (Alloc Dst_bio) s1)"
    using s1 by (simp add: stamps_follow_def emit_def stamps_chained_append
        last_accumulator_append)
  have buf: "stamps_follow (emit (Alloc Dst_buf) (emit (Alloc Dst_bio) s1\<lparr>dst_total := x\<rparr>))"
    for x
    using s1 by (simp add: stamps_follow_def emit_def stamps_chained_append
        last_accumulator_append)
  note streams = after_open_output_stream_stamps [OF buf assms]
  show ?thesis
  proof (cases oc)
    case Crashed
    then show ?thesis
      using follows [OF s1] by (simp add: transcoding_def opened trace_of_simps)
  next
    case (Returned r)
    then show ?thesis
      using after [OF s1] follows [OF s1] after [OF bio] follows [OF buf] streams
      by (simp add: transcoding_def opened trace_of_simps Let_def split: option.split)
  qed
qed

lemma stamps_chained_sorted:
  "stamps_chained a evs \<Longrightarrow>
     sorted_wrt (<) (chunk_accumulators evs) \<and> (\<forall>x \<in> set (chunk_accumulators evs). a < x)"
proof (induction a evs rule: stamps_chained.induct)
  case (1 a)
  then show ?case by simp
next
  case (2 a p n a' w evs)
  then show ?case by fastforce
next
  case (3 a a' w evs)
  then show ?case by auto
qed auto

text \<open>
  C3, as it is stated, fails on the successful call: after the two chunks the encoder gives
  two more packets when it is flushed, a flush call has no frame, and the accumulator is 2304
  at each of the last three packets written.
\<close>

theorem flush_packets_counterexample:
  "outcome_of (transcoding good_library 5 caller_memory0 no_args 2348) = Some (Returned 0)
   \<and> written_accumulators (trace_of (transcoding good_library 5 caller_memory0 no_args 2348)) =
       [1152, 2304, 2304, 2304]
   \<and> \<not> sorted_wrt (<)
         (written_accumulators (trace_of (transcoding good_library 5 caller_memory0 no_args 2348)))"
  by (simp add: good_run_outcome good_run_trace)

text \<open>
  C3, as the code has it. In every call whose encoder has a positive frame size, every chunk
  taken from the FIFO is stamped, before the encode call, with the accumulator as the chunk
  before it left it (0 for the first), has a positive sample count and advances the
  accumulator by exactly that count, so the accumulator increases strictly from one chunk to
  the next; a flush call at the end of the stream carries no chunk and leaves the
  accumulator as it is.
\<close>

theorem accumulator_advances_by_chunks:
  assumes "0 < encoder_frame_size (on_output e)"
  shows "stamps_chained 0 (trace_of (transcoding e fuel mem args src_size))
         \<and> sorted_wrt (<) (chunk_accumulators (trace_of (transcoding e fuel mem args src_size)))"
  using transcoding_stamps [OF assms] stamps_chained_sorted by blast

theorem accumulator_advances_by_chunks_witness:
  "0 < encoder_frame_size (on_output good_library)
   \<and> stamps_chained 0 (trace_of (transcoding good_library 5 caller_memory0 no_args 2348))
   \<and> chunk_accumulators (trace_of (transcoding good_library 5 caller_memory0 no_args 2348)) =
       [1152, 2304]
   \<and> sorted_wrt (<)
       (chunk_accumulators (trace_of (transcoding good_library 5 caller_memory0 no_args 2348)))"
proof -
  have positive: "0 < encoder_frame_size (on_output good_library)"
    by (simp add: good_library_fields good_output_def)
  have chunks: "chunk_accumulators
      (trace_of (transcoding good_library 5 caller_memory0 no_args 2348)) = [1152, 2304]"
    by (simp add: good_run_trace)
  show ?thesis
    using accumulator_advances_by_chunks [OF positive, of 5 caller_memory0 no_args 2348]
      positive chunks
    by simp
qed

end
